theory Spec2Isabelle
  imports Main
begin

section \<open>Runtime values shared by the components\<close>

text \<open>
  A JavaScript exception is represented by the text it renders to inside a template
  string. A computation that may throw returns \<open>exn + 'a\<close>, with \<open>Inl\<close> the
  thrown exception.
\<close>

type_synonym exn = string

subsection \<open>String primitives of the runtime\<close>

text \<open>
  \<open>String.prototype.trim\<close>, \<open>indexOf\<close>, \<open>lastIndexOf\<close> and \<open>substring\<close> on
  strings of code units below 256. \<open>indexOf\<close> and \<open>lastIndexOf\<close> answer \<open>-1\<close> when
  the character does not occur; \<open>substring\<close> clamps both bounds to the string and
  swaps them when they are out of order.
\<close>

definition isWhiteSpace :: "char \<Rightarrow> bool" where
  "isWhiteSpace c \<longleftrightarrow>
     c \<in> {CHR 0x09, CHR 0x0A, CHR 0x0B, CHR 0x0C, CHR 0x0D, CHR 0x20, CHR 0xA0}"

definition trim :: "string \<Rightarrow> string" where
  "trim s = rev (dropWhile isWhiteSpace (rev (dropWhile isWhiteSpace s)))"

definition indexOf :: "string \<Rightarrow> char \<Rightarrow> int" where
  "indexOf s c = (if c \<in> set s then int (length (takeWhile (\<lambda>x. x \<noteq> c) s)) else - 1)"

definition lastIndexOf :: "string \<Rightarrow> char \<Rightarrow> int" where
  "lastIndexOf s c =
     (if c \<in> set s
      then int (length s) - 1 - int (length (takeWhile (\<lambda>x. x \<noteq> c) (rev s)))
      else - 1)"

definition substring :: "string \<Rightarrow> int \<Rightarrow> int \<Rightarrow> string" where
  "substring s a b =
     (let n = int (length s);
          a' = max 0 (min a n);
          b' = max 0 (min b n);
          lo = min a' b';
          hi = max a' b'
      in take (nat (hi - lo)) (drop (nat lo) s))"

section \<open>Types of the linter output (types.ts)\<close>

record Position =
  line_number :: int
  column_number :: int

record LinterLocation =
  start_position :: Position
  end_position :: Position
  path :: string

record LinterProblem =
  message :: string
  location :: LinterLocation
  rule_id :: string
  rule_doc_uri :: string

text \<open>
  \<open>problems\<close> is optional: the decoder itself tests \<open>!result.problems\<close> before it
  reads the list.
\<close>

record LinterOutput =
  file_path :: string
  problems :: "LinterProblem list option"

text \<open>
  What \<open>JSON.parse\<close> hands to the decoder under the declared type
  \<open>LinterOutput[]\<close>: an array of result groups, or a value that is no array (on
  which \<open>results.forEach\<close> is not a function).
\<close>

datatype parsed = NotArray | Groups "LinterOutput list"

section \<open>Diagnostics (the editor's value objects)\<close>

datatype DiagnosticSeverity = Error | Warning | Information | Hint

text \<open>The four numbers passed to \<open>new vscode.Range(...)\<close>, in that order.\<close>

record Range =
  startLine :: int
  startChar :: int
  endLine :: int
  endChar :: int

record Diagnostic =
  range_of :: Range
  text_of :: string
  severity :: DiagnosticSeverity
  source_of :: string
  code_value :: string
  code_target :: string

section \<open>Output decoder (utils/linterUtils.ts)\<close>

text \<open>
  \<open>createDiagnosticFromProblem\<close> computes each of the four coordinates from its
  own member of the location. The variants of the file agree on it but for the
  severity, which is \<open>Error\<close> in two of them and \<open>Warning\<close> in the third.
\<close>

definition createDiagnosticFromProblem :: "LinterProblem \<Rightarrow> Diagnostic" where
  "createDiagnosticFromProblem problem =
     (let startLine = max 0 (line_number (start_position (location problem)) - 1);
          startChar = max 0 (column_number (start_position (location problem)) - 1);
          endLine = max 0 (line_number (end_position (location problem)) - 1);
          endChar = max 0 (column_number (end_position (location problem)) - 1)
      in \<lparr>range_of = \<lparr>startLine = startLine, startChar = startChar,
                        endLine = endLine, endChar = endChar\<rparr>,
          text_of = message problem,
          severity = Error,
          source_of = ''google-api-linter'',
          code_value = rule_id problem,
          code_target = rule_doc_uri problem\<rparr>)"

text \<open>
  The two nested \<open>forEach\<close> loops; \<open>diagnostics.push\<close> appends to the array that
  is threaded through.
\<close>

fun forEach_problems :: "LinterProblem list \<Rightarrow> Diagnostic list \<Rightarrow> Diagnostic list" where
  "forEach_problems [] diagnostics = diagnostics"
| "forEach_problems (problem # rest) diagnostics =
     forEach_problems rest (diagnostics @ [createDiagnosticFromProblem problem])"

fun forEach_results :: "LinterOutput list \<Rightarrow> Diagnostic list \<Rightarrow> Diagnostic list" where
  "forEach_results [] diagnostics = diagnostics"
| "forEach_results (result # rest) diagnostics =
     (case problems result of
        None \<Rightarrow> forEach_results rest diagnostics
      | Some ps \<Rightarrow>
          if length ps = 0 then forEach_results rest diagnostics
          else forEach_results rest (forEach_problems ps diagnostics))"

text \<open>
  The state the decoder works on: the diagnostics array, the lines written with
  \<open>console.error\<close>, and the optional output channel (\<open>None\<close> when the caller passes
  none) with the lines appended to it.
\<close>

record ParseRun =
  diagnostics :: "Diagnostic list"
  console :: "string list"
  channel :: "string list option"

definition report :: "string \<Rightarrow> ParseRun \<Rightarrow> ParseRun" where
  "report msg st =
     st\<lparr>console := console st @ [msg],
        channel := map_option (\<lambda>ls. ls @ [''ERROR: '' @ msg]) (channel st)\<rparr>"

definition appendLine :: "string \<Rightarrow> ParseRun \<Rightarrow> ParseRun" where
  "appendLine msg st = st\<lparr>channel := map_option (\<lambda>ls. ls @ [msg]) (channel st)\<rparr>"

text \<open>
  The body of the \<open>try\<close> block of \<open>parseLinterOutput\<close> (the variant that extracts the
  bracketed array). It answers the state it leaves behind and the exception that is
  pending when control leaves the block, if any.
\<close>

definition parse_try ::
  "(string \<Rightarrow> exn + parsed) \<Rightarrow> string \<Rightarrow> ParseRun \<Rightarrow> ParseRun \<times> exn option" where
  "parse_try JSON_parse output st =
     (let jsonOutput = trim output;
          jsonStart = indexOf jsonOutput CHR ''[''
      in if jsonStart = - 1
         then (report (''No JSON array found in linter output. First 200 chars: ''
                       @ substring output 0 200) st, None)
         else
           let jsonEnd = lastIndexOf jsonOutput CHR '']''
           in if jsonEnd = - 1 \<or> jsonEnd < jsonStart
              then (report (''Invalid JSON array in linter output. First 200 chars: ''
                            @ substring output 0 200) st, None)
              else
                let jsonOutput' = substring jsonOutput jsonStart (jsonEnd + 1);
                    st' = appendLine (''Extracted JSON (first 200 chars): ''
                                      @ substring jsonOutput' 0 200) st
                in case JSON_parse jsonOutput' of
                     Inl e \<Rightarrow> (st', Some e)
                   | Inr NotArray \<Rightarrow>
                       (st', Some ''TypeError: results.forEach is not a function'')
                   | Inr (Groups results) \<Rightarrow>
                       (st'\<lparr>diagnostics := forEach_results results (diagnostics st')\<rparr>, None))"

definition parseLinterOutput ::
  "(string \<Rightarrow> exn + parsed) \<Rightarrow> string \<Rightarrow> string list option \<Rightarrow> exn + ParseRun" where
  "parseLinterOutput JSON_parse output outputChannel =
     (let st = \<lparr>diagnostics = [], console = [], channel = outputChannel\<rparr>
      in if output = [] \<or> trim output = [] then Inr st
         else case parse_try JSON_parse output st of
                (st', None) \<Rightarrow> Inr st'
              | (st', Some e) \<Rightarrow>
                  Inr (report (''Error parsing linter output: '' @ e
                               @ ''. First 200 chars: '' @ substring output 0 200) st'))"

text \<open>
  The earlier variant of the decoder parses the whole buffer and logs with
  \<open>console.error\<close> only.
\<close>

definition parseLinterOutput_plain ::
  "(string \<Rightarrow> exn + parsed) \<Rightarrow> string \<Rightarrow> exn + ParseRun" where
  "parseLinterOutput_plain JSON_parse output =
     (let st = \<lparr>diagnostics = [], console = [], channel = None\<rparr>
      in if output = [] \<or> trim output = [] then Inr st
         else case JSON_parse output of
                Inl e \<Rightarrow> Inr (st\<lparr>console := [''Error parsing linter output: '' @ e]\<rparr>)
              | Inr NotArray \<Rightarrow>
                  Inr (st\<lparr>console := [''Error parsing linter output: ''
                         @ ''TypeError: results.forEach is not a function'']\<rparr>)
              | Inr (Groups results) \<Rightarrow>
                  Inr (st\<lparr>diagnostics := forEach_results results []\<rparr>))"


text \<open>
  The substring the decoder hands to \<open>JSON.parse\<close> when a bracket pair is found:
  from the first \<open>[\<close> to the last \<open>]\<close> of the trimmed buffer.
\<close>

definition extracted :: "string \<Rightarrow> string" where
  "extracted output =
     substring (trim output) (indexOf (trim output) CHR ''['')
       (lastIndexOf (trim output) CHR '']'' + 1)"

text \<open>
  The problem entries of a payload in the order the tool reports them: the groups in
  order, the problems of each group in order, a group without a problem list or
  with an empty one contributing nothing.
\<close>

definition problem_entries :: "LinterOutput list \<Rightarrow> LinterProblem list" where
  "problem_entries results =
     concat (map (\<lambda>r. case problems r of None \<Rightarrow> [] | Some ps \<Rightarrow> ps) results)"

subsection \<open>A sample payload\<close>

definition sample_problem :: "int \<Rightarrow> int \<Rightarrow> int \<Rightarrow> int \<Rightarrow> LinterProblem" where
  "sample_problem l1 c1 l2 c2 =
     \<lparr>message = ''Missing comment'',
      location = \<lparr>start_position = \<lparr>line_number = l1, column_number = c1\<rparr>,
                  end_position = \<lparr>line_number = l2, column_number = c2\<rparr>,
                  path = ''a.proto''\<rparr>,
      rule_id = ''core::0192::has-comments'',
      rule_doc_uri = ''https://linter.aip.dev/192/has-comments''\<rparr>"

definition sample_results :: "LinterOutput list" where
  "sample_results =
     [\<lparr>file_path = ''empty.proto'', problems = Some []\<rparr>,
      \<lparr>file_path = ''a.proto'', problems = Some [sample_problem 3 1 3 8, sample_problem 0 5 1 0]\<rparr>,
      \<lparr>file_path = ''none.proto'', problems = None\<rparr>]"

definition sample_body :: string where
  \<open>sample_body = ''{"file_path":"a.proto","problems":[{"rule_id":"core::0192::has-comments"}]}''\<close>

definition sample_payload :: string where
  "sample_payload = CHR ''['' # sample_body @ '']''"

text \<open>
  A \<open>JSON.parse\<close> that knows the sample payload, the empty array and one object, and
  rejects every other text.
\<close>

definition sample_JSON_parse :: "string \<Rightarrow> exn + parsed" where
  "sample_JSON_parse s =
     (if s = sample_payload then Inr (Groups sample_results)
      else if s = ''[]'' then Inr (Groups [])
      else if s = ''{}'' then Inr NotArray
      else Inl ''SyntaxError: Unexpected token'')"

section \<open>Process runner (linterProvider.ts)\<close>

text \<open>
  Decimal rendering of an integer inside a template string: the digits from the most
  significant one, after a minus sign for a negative number.
\<close>

definition digit :: "nat \<Rightarrow> char" where
  "digit n = ''0123456789'' ! n"

fun string_of_nat :: "nat \<Rightarrow> string" where
  "string_of_nat n =
     (if n < 10 then [digit n]
      else string_of_nat (n div 10) @ [digit (n mod 10)])"

declare string_of_nat.simps [simp del]

definition string_of_int :: "int \<Rightarrow> string" where
  "string_of_int i = (if i < 0 then ''-'' @ string_of_nat (nat (- i)) else string_of_nat (nat i))"

text \<open>
  The exit code handed to the \<open>close\<close> listener is a number, or \<open>null\<close> when the
  process was ended by a signal.
\<close>

definition render_code :: "int option \<Rightarrow> string" where
  "render_code code = (case code of None \<Rightarrow> ''null'' | Some c \<Rightarrow> string_of_int c)"

datatype 'a promise = Resolved 'a | Rejected exn

text \<open>
  The \<open>close\<close> listener of \<open>runLinter\<close>: it settles the promise and appends to the
  output channel, whose lines are threaded through.
\<close>

definition runLinter_on_close ::
  "(string \<Rightarrow> exn + parsed) \<Rightarrow> string list \<Rightarrow> string \<Rightarrow> string \<Rightarrow> int option
     \<Rightarrow> Diagnostic list promise \<times> string list" where
  "runLinter_on_close JSON_parse outputChannel stdout stderr code =
     (let ch = (if stderr \<noteq> [] then outputChannel @ [''stderr: '' @ stderr]
                else outputChannel)
      in if code \<noteq> Some 0 \<and> code \<noteq> Some 1
         then (Rejected (''Error: api-linter exited with code '' @ render_code code),
               ch @ [''api-linter exited with code '' @ render_code code,
                     ''stdout: '' @ stdout])
         else case parseLinterOutput JSON_parse stdout None of
                Inr run \<Rightarrow> (Resolved (diagnostics run), ch)
              | Inl error \<Rightarrow>
                  (Resolved [],
                   ch @ [''Failed to parse linter output: '' @ error, ''stdout: '' @ stdout]))"

section \<open>Invocation argument builder (utils/linterUtils.ts)\<close>

record LinterOptions =
  configPath :: string
  protoPath :: "string list"
  disableRules :: "string list"
  enableRules :: "string list"
  descriptorSetIn :: "string list"
  ignoreCommentDisables :: bool
  setExitStatus :: bool

text \<open>
  What the builder reads from the editor, the file system and the \<open>path\<close> and \<open>os\<close>
  modules. \<open>workspaceFolders\<close> holds the \<open>fsPath\<close> of every open folder (\<open>None\<close>
  when the editor reports \<open>undefined\<close>), \<open>getWorkspaceFolder\<close> the \<open>fsPath\<close> of the
  folder that contains a file.
\<close>

record Env =
  workspaceFolders :: "string list option"
  getWorkspaceFolder :: "string \<Rightarrow> string option"
  existsSync :: "string \<Rightarrow> bool"
  homedir :: string
  path_resolve :: "string \<Rightarrow> string"
  path_isAbsolute :: "string \<Rightarrow> bool"
  path_dirname :: "string \<Rightarrow> string"
  path_basename :: "string \<Rightarrow> string"
  path_join :: "string list \<Rightarrow> string"

text \<open>
  \<open>subject.replace(/pattern/g, replacement)\<close> for a pattern that matches one literal
  text and has no capture group, scanning left to right without overlap. The
  replacement text is expanded at every match as the runtime does: \<open>$$\<close> stands for
  a dollar sign, \<open>$&\<close> for the matched text, a dollar sign followed by a backtick for
  the part of the subject before the match, a dollar sign followed by an apostrophe
  for the part after it; every other character, a dollar sign before a digit
  included, stands for itself.
\<close>

fun expand_replacement :: "string \<Rightarrow> string \<Rightarrow> string \<Rightarrow> string \<Rightarrow> string" where
  "expand_replacement matched preceding following (c # c' # cs) =
     (if c = CHR ''$'' \<and> c' = CHR ''$''
      then CHR ''$'' # expand_replacement matched preceding following cs
      else if c = CHR ''$'' \<and> c' = CHR ''&''
      then matched @ expand_replacement matched preceding following cs
      else if c = CHR ''$'' \<and> c' = CHR 0x60
      then preceding @ expand_replacement matched preceding following cs
      else if c = CHR ''$'' \<and> c' = CHR 0x27
      then following @ expand_replacement matched preceding following cs
      else c # expand_replacement matched preceding following (c' # cs))"
| "expand_replacement matched preceding following cs = cs"

function replace_from :: "string \<Rightarrow> string \<Rightarrow> string \<Rightarrow> string \<Rightarrow> string" where
  "replace_from pat rep preceding [] = []"
| "replace_from pat rep preceding (c # cs) =
     (if pat \<noteq> [] \<and> take (length pat) (c # cs) = pat
      then expand_replacement pat preceding (drop (length pat) (c # cs)) rep
           @ replace_from pat rep (preceding @ pat) (drop (length pat) (c # cs))
      else c # replace_from pat rep (preceding @ [c]) cs)"
  by pat_completeness auto
termination
  by (relation "measure (\<lambda>(pat, rep, preceding, s). length s)") auto

definition replace_all :: "string \<Rightarrow> string \<Rightarrow> string \<Rightarrow> string" where
  "replace_all pat rep subject = replace_from pat rep [] subject"

text \<open>
  The expression both functions below use for the workspace root:
  \<open>workspaceFolder?.uri.fsPath || workspaceFolders[0].uri.fsPath\<close>, evaluated only
  when \<open>workspaceFolders\<close> is defined and not empty.
\<close>

definition workspaceRoot_of :: "Env \<Rightarrow> string \<Rightarrow> string option" where
  "workspaceRoot_of env filePath =
     (case workspaceFolders env of
        None \<Rightarrow> None
      | Some [] \<Rightarrow> None
      | Some (first # others) \<Rightarrow>
          (case getWorkspaceFolder env filePath of
             None \<Rightarrow> Some first
           | Some fsPath \<Rightarrow> if fsPath \<noteq> [] then Some fsPath else Some first))"

definition resolveWorkspaceVariables :: "Env \<Rightarrow> string \<Rightarrow> string \<Rightarrow> string" where
  "resolveWorkspaceVariables env pathStr filePath =
     (let resolved =
            (case workspaceRoot_of env filePath of
               None \<Rightarrow> pathStr
             | Some workspacePath \<Rightarrow>
                 replace_all ''${workspaceRoot}'' workspacePath
                   (replace_all ''${workspaceFolder}'' workspacePath pathStr))
      in path_resolve env resolved)"

fun forEach_protoPath :: "Env \<Rightarrow> string \<Rightarrow> string list \<Rightarrow> string list \<Rightarrow> string list" where
  "forEach_protoPath env filePath [] args = args"
| "forEach_protoPath env filePath (entry # rest) args =
     (let resolvedPath = resolveWorkspaceVariables env entry filePath
      in forEach_protoPath env filePath rest
           (if existsSync env resolvedPath then args @ [''--proto-path'', resolvedPath]
            else args))"

fun forEach_flag :: "string \<Rightarrow> string list \<Rightarrow> string list \<Rightarrow> string list" where
  "forEach_flag flag [] args = args"
| "forEach_flag flag (v # rest) args = forEach_flag flag rest (args @ [flag, v])"

record LinterArgs =
  args :: "string list"
  workingDir :: string
  fileName :: string

definition buildLinterArgs :: "Env \<Rightarrow> string \<Rightarrow> LinterOptions \<Rightarrow> LinterArgs" where
  "buildLinterArgs env filePath options =
     (let args1 =
            (if configPath options \<noteq> []
             then let resolvedConfigPath =
                        resolveWorkspaceVariables env (configPath options) filePath
                  in if existsSync env resolvedConfigPath
                     then [''--config'', resolvedConfigPath] else []
             else []);
          absolutePath =
            (if path_isAbsolute env filePath then filePath else path_resolve env filePath);
          workingDir = path_dirname env absolutePath;
          fileName = path_basename env absolutePath;
          args2 = args1 @ [''--proto-path'', workingDir];
          args3 =
            (case workspaceRoot_of env filePath of
               None \<Rightarrow> args2
             | Some workspaceRoot \<Rightarrow>
                 let a = (if workspaceRoot \<noteq> workingDir \<and> existsSync env workspaceRoot
                          then args2 @ [''--proto-path'', workspaceRoot] else args2);
                     workspaceGapiDir = path_join env [workspaceRoot, ''.gapi'', ''googleapis'']
                 in if existsSync env workspaceGapiDir
                    then a @ [''--proto-path'', workspaceGapiDir] else a);
          homeGapiDir = path_join env [homedir env, ''.gapi'', ''googleapis''];
          args4 = (if existsSync env homeGapiDir
                   then args3 @ [''--proto-path'', homeGapiDir] else args3);
          args5 = forEach_protoPath env filePath (protoPath options) args4;
          args6 = forEach_flag ''--disable-rule'' (disableRules options) args5;
          args7 = forEach_flag ''--enable-rule'' (enableRules options) args6;
          args8 = forEach_flag ''--descriptor-set-in'' (descriptorSetIn options) args7;
          args9 = (if ignoreCommentDisables options
                   then args8 @ [''--ignore-comment-disables''] else args8);
          args10 = (if setExitStatus options then args9 @ [''--set-exit-status''] else args9);
          args11 = args10 @ [''--output-format'', ''json''];
          args12 = args11 @ [fileName]
      in \<lparr>args = args12, workingDir = workingDir, fileName = fileName\<rparr>)"

text \<open>
  \<open>buildLinterArgs\<close> above is the variant that resolves workspace variables. The
  variant of src/utils/linterUtils.ts has no \<open>resolveWorkspaceVariables\<close>: it tests
  the configuration path as it is given, adds no workspace or home directory, and
  pushes every entry of \<open>protoPath\<close> as it is given.
\<close>

definition buildLinterArgs_plain :: "Env \<Rightarrow> string \<Rightarrow> LinterOptions \<Rightarrow> LinterArgs" where
  "buildLinterArgs_plain env filePath options =
     (let args1 =
            (if configPath options \<noteq> [] \<and> existsSync env (configPath options)
             then [''--config'', configPath options] else []);
          absolutePath =
            (if path_isAbsolute env filePath then filePath else path_resolve env filePath);
          workingDir = path_dirname env absolutePath;
          fileName = path_basename env absolutePath;
          args2 = args1 @ [''--proto-path'', workingDir];
          args3 = forEach_flag ''--proto-path'' (protoPath options) args2;
          args4 = forEach_flag ''--disable-rule'' (disableRules options) args3;
          args5 = forEach_flag ''--enable-rule'' (enableRules options) args4;
          args6 = forEach_flag ''--descriptor-set-in'' (descriptorSetIn options) args5;
          args7 = (if ignoreCommentDisables options
                   then args6 @ [''--ignore-comment-disables''] else args6);
          args8 = (if setExitStatus options then args7 @ [''--set-exit-status''] else args7);
          args9 = args8 @ [''--output-format'', ''json''];
          args10 = args9 @ [fileName]
      in \<lparr>args = args10, workingDir = workingDir, fileName = fileName\<rparr>)"


subsection \<open>Sample environments\<close>

text \<open>
  The \<open>path\<close> functions on POSIX paths that are already normalised, with \<open>/cwd\<close> as
  the working directory of the process.
\<close>

definition posix_isAbsolute :: "string \<Rightarrow> bool" where
  "posix_isAbsolute p = (case p of [] \<Rightarrow> False | c # cs \<Rightarrow> c = CHR ''/'')"

definition posix_resolve :: "string \<Rightarrow> string" where
  "posix_resolve p = (if posix_isAbsolute p then p else ''/cwd/'' @ p)"

definition posix_dirname :: "string \<Rightarrow> string" where
  "posix_dirname p =
     (let i = lastIndexOf p CHR ''/''
      in if i = - 1 then ''.'' else if i = 0 then ''/'' else substring p 0 i)"

definition posix_basename :: "string \<Rightarrow> string" where
  "posix_basename p = substring p (lastIndexOf p CHR ''/'' + 1) (int (length p))"

fun posix_join :: "string list \<Rightarrow> string" where
  "posix_join [] = ''.''"
| "posix_join [p] = p"
| "posix_join (p # q # ps) = p @ ''/'' @ posix_join (q # ps)"

text \<open>
  A workspace opened at \<open>/ws\<close> with the directories \<open>/ws\<close>, \<open>/ws/p\<close> and
  \<open>/ws/p/vendor\<close> on disk.
\<close>

definition sample_env :: Env where
  "sample_env =
     \<lparr>workspaceFolders = Some [''/ws''],
      getWorkspaceFolder = (\<lambda>f. if take 4 f = ''/ws/'' then Some ''/ws'' else None),
      existsSync = (\<lambda>p. p \<in> {''/ws'', ''/ws/p'', ''/ws/p/vendor''}),
      homedir = ''/home/u'',
      path_resolve = posix_resolve,
      path_isAbsolute = posix_isAbsolute,
      path_dirname = posix_dirname,
      path_basename = posix_basename,
      path_join = posix_join\<rparr>"

definition sample_options :: LinterOptions where
  "sample_options =
     \<lparr>configPath = [],
      protoPath = [''${workspaceFolder}/p/vendor'', ''/ws/missing''],
      disableRules = [], enableRules = [], descriptorSetIn = [],
      ignoreCommentDisables = False, setExitStatus = False\<rparr>"

text \<open>
  No folder is open in the editor, and the disk holds a directory whose name is the
  text \<open>${workspaceFolder}\<close>.
\<close>

definition no_workspace_env :: Env where
  "no_workspace_env =
     \<lparr>workspaceFolders = None,
      getWorkspaceFolder = (\<lambda>f. None),
      existsSync = (\<lambda>p. p \<in> {''/ws/p'', ''/srv/${workspaceFolder}/protos''}),
      homedir = ''/home/u'',
      path_resolve = posix_resolve,
      path_isAbsolute = posix_isAbsolute,
      path_dirname = posix_dirname,
      path_basename = posix_basename,
      path_join = posix_join\<rparr>"

definition placeholder_options :: LinterOptions where
  "placeholder_options =
     \<lparr>configPath = [],
      protoPath = [''/srv/${workspaceFolder}/protos''],
      disableRules = [], enableRules = [], descriptorSetIn = [],
      ignoreCommentDisables = False, setExitStatus = False\<rparr>"

section \<open>Dependency provisioner (download/apiLinterDownloader.ts, download/googleapisDownloader.ts)\<close>

subsection \<open>Sidecar metadata and release data\<close>

text \<open>
  The members the two sidecar files share, and the two files: \<open>BinaryMetadata\<close> of
  types.ts for the executable, and the object written for the googleapis corpus.
\<close>

record Stamp =
  lastChecked :: int
  path :: string

record BinaryMetadata = Stamp +
  version :: string

record GoogleapisMetadata = Stamp +
  commit :: string
  source :: string

record Asset =
  name :: string
  browser_download_url :: string

record Release =
  tag_name :: string
  assets :: "Asset list"

subsection \<open>The world the provisioner acts on\<close>

datatype node = File string | Dir

text \<open>Every call that leaves the process, in the order it is made.\<close>

datatype event =
    Mkdir string
  | FetchJson string
  | DownloadFile string string
  | Exec string
  | Chmod string
  | Unlink string
  | Rename string string
  | WriteFile string string
  | ShowMessage string

fun is_network :: "event \<Rightarrow> bool" where
  "is_network (FetchJson url) = True"
| "is_network (DownloadFile url dest) = True"
| "is_network ev = False"

text \<open>
  How a download ends: with the bytes of the archive, with a final status other than
  200, or with a request error.
\<close>

datatype download_outcome = Downloaded string | BadStatus nat | RequestError exn

record World =
  fs :: "string \<Rightarrow> node option"
  now :: int
  outputLines :: "string list"
  trace :: "event list"

definition network_calls :: "World \<Rightarrow> event list" where
  "network_calls w = filter is_network (trace w)"

text \<open>
  What the surroundings answer: the \<open>gapi.binaryPath\<close> setting (\<open>None\<close> when it is
  not set), the home directory and \<open>path.join\<close>, platform and architecture, the
  failure of \<open>mkdir\<close> if it fails, the release endpoint, the download of an archive
  (its bytes), what \<open>tar\<close> finds for the member \<open>api-linter\<close> in an archive, the
  button the user presses on a notification, and \<open>JSON.parse\<close> and
  \<open>JSON.stringify\<close> at the declared types of the two sidecar files.
\<close>

record Downloader =
  binaryPath_setting :: "string option"
  home :: string
  join :: "string list \<Rightarrow> string"
  platform :: string
  arch :: string
  mkdir_failure :: "exn option"
  fetchJson :: "string \<Rightarrow> exn + Release"
  downloadFile :: "string \<Rightarrow> download_outcome"
  untar :: "string \<Rightarrow> exn + string option"
  showInformationMessage :: "string \<Rightarrow> string option"
  JSON_parse_metadata :: "string \<Rightarrow> exn + BinaryMetadata"
  JSON_stringify_metadata :: "BinaryMetadata \<Rightarrow> string"
  JSON_parse_googleapis :: "string \<Rightarrow> exn + GoogleapisMetadata"
  JSON_stringify_googleapis :: "GoogleapisMetadata \<Rightarrow> string"

text \<open>
  An asynchronous method: it takes the world and answers the value it resolves with
  (\<open>Inr\<close>) or the exception it rejects with (\<open>Inl\<close>), and the world it leaves.
\<close>

type_synonym 'a action = "World \<Rightarrow> (exn + 'a) \<times> World"

definition resolve :: "'a \<Rightarrow> 'a action" where
  "resolve x w = (Inr x, w)"

definition reject :: "exn \<Rightarrow> 'a action" where
  "reject e w = (Inl e, w)"

definition andThen :: "'a action \<Rightarrow> ('a \<Rightarrow> 'b action) \<Rightarrow> 'b action" where
  "andThen m f w = (case m w of (Inl e, w') \<Rightarrow> (Inl e, w') | (Inr x, w') \<Rightarrow> f x w')"

definition tryCatch :: "'a action \<Rightarrow> (exn \<Rightarrow> 'a action) \<Rightarrow> 'a action" where
  "tryCatch m h w = (case m w of (Inl e, w') \<Rightarrow> h e w' | (Inr x, w') \<Rightarrow> (Inr x, w'))"

definition emit :: "event \<Rightarrow> World \<Rightarrow> World" where
  "emit ev w = w\<lparr>trace := trace w @ [ev]\<rparr>"

definition say :: "string \<Rightarrow> unit action" where
  "say msg w = (Inr (), w\<lparr>outputLines := outputLines w @ [msg]\<rparr>)"

definition readFile :: "string \<Rightarrow> World \<Rightarrow> exn + string" where
  "readFile p w =
     (case fs w p of
        Some (File content) \<Rightarrow> Inr content
      | Some Dir \<Rightarrow> Inl (''Error: EISDIR: illegal operation on a directory, read'')
      | None \<Rightarrow> Inl (''Error: ENOENT: no such file or directory, open '' @ p))"

definition writeFile :: "string \<Rightarrow> string \<Rightarrow> unit action" where
  "writeFile p content w =
     (Inr (), emit (WriteFile p content) (w\<lparr>fs := (fs w)(p \<mapsto> File content)\<rparr>))"

definition mkdir :: "Downloader \<Rightarrow> string \<Rightarrow> unit action" where
  "mkdir d p w =
     (case mkdir_failure d of
        Some e \<Rightarrow> (Inl e, emit (Mkdir p) w)
      | None \<Rightarrow> (Inr (), emit (Mkdir p) (w\<lparr>fs := (fs w)(p \<mapsto> Dir)\<rparr>)))"

definition chmod :: "string \<Rightarrow> unit action" where
  "chmod p w =
     (if fs w p = None
      then (Inl (''Error: ENOENT: no such file or directory, chmod '' @ p), emit (Chmod p) w)
      else (Inr (), emit (Chmod p) w))"

definition unlinkSync :: "string \<Rightarrow> unit action" where
  "unlinkSync p w =
     (if fs w p = None
      then (Inl (''Error: ENOENT: no such file or directory, unlink '' @ p), emit (Unlink p) w)
      else (Inr (), emit (Unlink p) (w\<lparr>fs := (fs w)(p := None)\<rparr>)))"

definition fetch_json :: "Downloader \<Rightarrow> string \<Rightarrow> Release action" where
  "fetch_json d url w = (fetchJson d url, emit (FetchJson url) w)"

text \<open>
  \<open>downloadFile\<close> of utils/httpClient.ts opens the destination for writing before
  it sends the request, follows redirects, rejects on a final status other than 200
  and, on a request error, removes the destination and rejects.
\<close>

definition download_file :: "Downloader \<Rightarrow> string \<Rightarrow> string \<Rightarrow> unit action" where
  "download_file d url dest w =
     (case downloadFile d url of
        Downloaded bytes \<Rightarrow>
          (Inr (), emit (DownloadFile url dest) (w\<lparr>fs := (fs w)(dest \<mapsto> File bytes)\<rparr>))
      | BadStatus status \<Rightarrow>
          (Inl (''Error: Failed to download: '' @ string_of_nat status),
           emit (DownloadFile url dest) (w\<lparr>fs := (fs w)(dest \<mapsto> File [])\<rparr>))
      | RequestError e \<Rightarrow>
          (Inl e, emit (DownloadFile url dest) (w\<lparr>fs := (fs w)(dest := None)\<rparr>)))"

definition show_message :: "Downloader \<Rightarrow> string \<Rightarrow> string option action" where
  "show_message d msg w = (Inr (showInformationMessage d msg), emit (ShowMessage msg) w)"

subsection \<open>ApiLinterDownloader\<close>

definition GITHUB_API :: string where
  "GITHUB_API = ''https://api.github.com/repos/googleapis/api-linter/releases/latest''"

definition GAPI_DIR :: "Downloader \<Rightarrow> string" where
  "GAPI_DIR d = join d [home d, ''.gapi'']"

definition BINARY_PATH :: "Downloader \<Rightarrow> string" where
  "BINARY_PATH d = join d [GAPI_DIR d, ''api-linter'']"

definition METADATA_PATH :: "Downloader \<Rightarrow> string" where
  "METADATA_PATH d = join d [GAPI_DIR d, ''metadata.json'']"

definition getCustomBinaryPath :: "Downloader \<Rightarrow> string option" where
  "getCustomBinaryPath d =
     (case binaryPath_setting d of
        None \<Rightarrow> None
      | Some customPath \<Rightarrow>
          if customPath \<noteq> [] \<and> customPath \<noteq> ''api-linter'' then Some customPath else None)"

definition ensureDirectory :: "Downloader \<Rightarrow> unit action" where
  "ensureDirectory d w =
     (if fs w (GAPI_DIR d) = None then mkdir d (GAPI_DIR d) w else (Inr (), w))"

definition binaryExists :: "Downloader \<Rightarrow> World \<Rightarrow> bool" where
  "binaryExists d w \<longleftrightarrow> fs w (BINARY_PATH d) \<noteq> None"

definition oneDayInMs :: int where
  "oneDayInMs = 24 * 60 * 60 * 1000"

definition shouldCheckForUpdate :: "Downloader \<Rightarrow> World \<Rightarrow> bool" where
  "shouldCheckForUpdate d w =
     (case readFile (METADATA_PATH d) w of
        Inl e \<Rightarrow> True
      | Inr metadata \<Rightarrow>
          (case JSON_parse_metadata d metadata of
             Inl e \<Rightarrow> True
           | Inr data \<Rightarrow> now w - lastChecked data > oneDayInMs))"

definition getLatestVersion :: "Downloader \<Rightarrow> string action" where
  "getLatestVersion d = andThen (fetch_json d GITHUB_API) (\<lambda>release. resolve (tag_name release))"

definition getCurrentVersion :: "Downloader \<Rightarrow> string action" where
  "getCurrentVersion d w =
     (case readFile (METADATA_PATH d) w of
        Inl e \<Rightarrow> (Inr ''unknown'', w)
      | Inr metadata \<Rightarrow>
          (case JSON_parse_metadata d metadata of
             Inl e \<Rightarrow> (Inr ''unknown'', w)
           | Inr data \<Rightarrow> (Inr (version data), w)))"

definition updateMetadata :: "Downloader \<Rightarrow> string \<Rightarrow> unit action" where
  "updateMetadata d version' w =
     (let metadata = \<lparr>lastChecked = now w, path = BINARY_PATH d, version = version'\<rparr>
      in writeFile (METADATA_PATH d) (JSON_stringify_metadata d metadata) w)"

definition findAssetForPlatform :: "Downloader \<Rightarrow> Asset list \<Rightarrow> Asset option" where
  "findAssetForPlatform d assets' =
     (let assetName = ''api-linter-'' @ platform d @ ''-'' @ arch d @ ''.tar.gz''
      in find (\<lambda>asset. name asset = assetName) assets')"

text \<open>
  \<open>tar -xzf tarPath -C GAPI_DIR\<close>: it fails when the archive cannot be read, and
  otherwise writes the member \<open>api-linter\<close>, if the archive has one, into the data
  directory.
\<close>

definition exec_tar :: "Downloader \<Rightarrow> string \<Rightarrow> unit action" where
  "exec_tar d tarPath w =
     (let w' = emit (Exec (''tar -xzf '' @ tarPath @ '' -C '' @ GAPI_DIR d)) w
      in case readFile tarPath w of
           Inl e \<Rightarrow> (Inl e, w')
         | Inr bytes \<Rightarrow>
             (case untar d bytes of
                Inl e \<Rightarrow> (Inl e, w')
              | Inr None \<Rightarrow> (Inr (), w')
              | Inr (Some binary) \<Rightarrow>
                  (Inr (), w'\<lparr>fs := (fs w')(BINARY_PATH d \<mapsto> File binary)\<rparr>)))"

definition extractBinary :: "Downloader \<Rightarrow> string \<Rightarrow> unit action" where
  "extractBinary d tarPath =
     andThen (exec_tar d tarPath) (\<lambda>_.
     andThen (chmod (BINARY_PATH d)) (\<lambda>_.
     unlinkSync tarPath))"

definition downloadBinary :: "Downloader \<Rightarrow> unit action" where
  "downloadBinary d =
     andThen (say ''Downloading api-linter binary...'') (\<lambda>_.
     andThen (fetch_json d GITHUB_API) (\<lambda>release.
       let version' = tag_name release
       in case findAssetForPlatform d (assets release) of
            None \<Rightarrow>
              reject (''Error: No compatible binary found for '' @ platform d @ ''-'' @ arch d)
          | Some asset \<Rightarrow>
              let downloadUrl = browser_download_url asset;
                  tarPath = join d [GAPI_DIR d, ''api-linter.tar.gz'']
              in andThen (download_file d downloadUrl tarPath) (\<lambda>_.
                 andThen (say ''Download complete. Extracting...'') (\<lambda>_.
                 andThen (extractBinary d tarPath) (\<lambda>_.
                 andThen (updateMetadata d version') (\<lambda>_.
                 say ''Binary downloaded and installed successfully''))))))"

definition checkAndUpdate :: "Downloader \<Rightarrow> unit action" where
  "checkAndUpdate d =
     tryCatch
       (andThen (getLatestVersion d) (\<lambda>latestVersion.
        andThen (getCurrentVersion d) (\<lambda>currentVersion.
        andThen
          (if latestVersion \<noteq> currentVersion
           then andThen
                  (show_message d (''New version of api-linter available: '' @ latestVersion
                                   @ '' (current: '' @ currentVersion @ '')''))
                  (\<lambda>selection.
                     if selection = Some ''Update Now''
                     then andThen (downloadBinary d) (\<lambda>_.
                          andThen (show_message d (''api-linter updated to '' @ latestVersion))
                            (\<lambda>_. resolve ()))
                     else resolve ())
           else resolve ())
          (\<lambda>_. updateMetadata d currentVersion))))
       (\<lambda>error. say (''Failed to check for updates: '' @ error))"

definition ensureBinary :: "Downloader \<Rightarrow> string action" where
  "ensureBinary d =
     andThen (ensureDirectory d) (\<lambda>_.
       case getCustomBinaryPath d of
         Some customBinaryPath \<Rightarrow>
           andThen (say (''Using custom binary path: '' @ customBinaryPath))
             (\<lambda>_. resolve customBinaryPath)
       | None \<Rightarrow>
           (\<lambda>w. if binaryExists d w
                then andThen
                       (if shouldCheckForUpdate d w
                        then andThen (say ''Checking for updates...'') (\<lambda>_. checkAndUpdate d)
                        else resolve ())
                       (\<lambda>_. resolve (BINARY_PATH d)) w
                else andThen (say ''Binary not found. Downloading...'') (\<lambda>_.
                     andThen (downloadBinary d) (\<lambda>_. resolve (BINARY_PATH d))) w))"

subsection \<open>GoogleapisDownloader\<close>

definition GOOGLEAPIS_DIR :: "Downloader \<Rightarrow> string" where
  "GOOGLEAPIS_DIR d = join d [GAPI_DIR d, ''googleapis'']"

definition GOOGLEAPIS_METADATA_PATH :: "Downloader \<Rightarrow> string" where
  "GOOGLEAPIS_METADATA_PATH d = join d [GAPI_DIR d, ''googleapis-metadata.json'']"

definition thirtyDays :: int where
  "thirtyDays = 30 * 24 * 60 * 60 * 1000"

definition shouldDownloadGoogleapis :: "Downloader \<Rightarrow> World \<Rightarrow> bool" where
  "shouldDownloadGoogleapis d w =
     (if fs w (GOOGLEAPIS_DIR d) = None then True
      else case readFile (GOOGLEAPIS_METADATA_PATH d) w of
             Inl e \<Rightarrow> True
           | Inr metadataContent \<Rightarrow>
               (case JSON_parse_googleapis d metadataContent of
                  Inl e \<Rightarrow> True
                | Inr metadata \<Rightarrow> now w - lastChecked metadata > thirtyDays))"

definition updateGoogleapisMetadata :: "Downloader \<Rightarrow> unit action" where
  "updateGoogleapisMetadata d w =
     (let metadata = \<lparr>lastChecked = now w, path = GOOGLEAPIS_DIR d, commit = ''master'',
                      source = ''https://github.com/googleapis/googleapis''\<rparr>
      in writeFile (GOOGLEAPIS_METADATA_PATH d) (JSON_stringify_googleapis d metadata) w)"

subsection \<open>An interrupted write\<close>

text \<open>
  \<open>fs.writeFile\<close> opens its target for writing, which empties it, and then writes
  the data. \<open>writeFile_interrupted k\<close> is the world left behind when the process is
  stopped after the first \<open>k\<close> bytes have reached the file.
\<close>

definition writeFile_interrupted :: "nat \<Rightarrow> string \<Rightarrow> string \<Rightarrow> World \<Rightarrow> World" where
  "writeFile_interrupted k p content w =
     emit (WriteFile p content) (w\<lparr>fs := (fs w)(p \<mapsto> File (take k content))\<rparr>)"

definition updateMetadata_interrupted :: "nat \<Rightarrow> Downloader \<Rightarrow> string \<Rightarrow> World \<Rightarrow> World" where
  "updateMetadata_interrupted k d version' w =
     (let metadata = \<lparr>lastChecked = now w, path = BINARY_PATH d, version = version'\<rparr>
      in writeFile_interrupted k (METADATA_PATH d) (JSON_stringify_metadata d metadata) w)"

subsection \<open>Sample surroundings of the provisioner\<close>

definition sample_stringify :: "BinaryMetadata \<Rightarrow> string" where
  \<open>sample_stringify m =
     ''{"version":"'' @ version m @ ''","lastChecked":'' @ string_of_int (lastChecked m)
     @ '',"path":"'' @ path m @ ''"}''\<close>

text \<open>
  With the clock at \<open>100000000\<close>, the first record was checked one millisecond more
  than a day ago and the second one millisecond less than a day ago.
\<close>

definition due_metadata :: BinaryMetadata where
  "due_metadata = \<lparr>lastChecked = 13599999, path = ''/home/u/.gapi/api-linter'',
                    version = ''v1.0.0''\<rparr>"

definition fresh_metadata :: BinaryMetadata where
  "fresh_metadata = \<lparr>lastChecked = 13600001, path = ''/home/u/.gapi/api-linter'',
                      version = ''v1.0.0''\<rparr>"

definition sample_parse_metadata :: "string \<Rightarrow> exn + BinaryMetadata" where
  "sample_parse_metadata s =
     (if s = sample_stringify due_metadata then Inr due_metadata
      else if s = sample_stringify fresh_metadata then Inr fresh_metadata
      else Inl ''SyntaxError: Unexpected end of JSON input'')"

text \<open>
  A user who has set \<open>gapi.binaryPath\<close>, on a machine without network access whose
  home directory cannot be written.
\<close>

definition sample_downloader :: Downloader where
  "sample_downloader =
     \<lparr>binaryPath_setting = Some ''/opt/bin/api-linter'',
      home = ''/home/u'',
      join = posix_join,
      platform = ''linux'',
      arch = ''amd64'',
      mkdir_failure = Some ''Error: EACCES: permission denied, mkdir /home/u/.gapi'',
      fetchJson = (\<lambda>url. Inl ''Error: getaddrinfo ENOTFOUND api.github.com''),
      downloadFile = (\<lambda>url. RequestError ''Error: getaddrinfo ENOTFOUND github.com''),
      untar = (\<lambda>bytes. Inr None),
      showInformationMessage = (\<lambda>msg. None),
      JSON_parse_metadata = sample_parse_metadata,
      JSON_stringify_metadata = sample_stringify,
      JSON_parse_googleapis = (\<lambda>s. Inl ''SyntaxError: Unexpected end of JSON input''),
      JSON_stringify_googleapis = (\<lambda>m. ''{}'')\<rparr>"

definition empty_world :: World where
  "empty_world = \<lparr>fs = (\<lambda>p. None), now = 100000000, outputLines = [], trace = []\<rparr>"

definition installed_fs :: "BinaryMetadata \<Rightarrow> string \<Rightarrow> node option" where
  "installed_fs m p =
     (if p = ''/home/u/.gapi'' then Some Dir
      else if p = ''/home/u/.gapi/api-linter'' then Some (File ''ELF'')
      else if p = ''/home/u/.gapi/metadata.json'' then Some (File (sample_stringify m))
      else None)"

definition installed_world :: "BinaryMetadata \<Rightarrow> World" where
  "installed_world m = \<lparr>fs = installed_fs m, now = 100000000, outputLines = [], trace = []\<rparr>"

section \<open>Documentation enrichment cache (hoverProvider.ts)\<close>







section \<open>Evaluating the decimal rendering\<close>

lemma string_of_nat_eval:
  "string_of_nat 0 = ''0''"
  "string_of_nat (Suc 0) = ''1''"
  "string_of_nat (numeral k) =
     (if numeral k < (10::nat) then [digit (numeral k)]
      else string_of_nat (numeral k div 10) @ [digit (numeral k mod 10)])"
  by (simp_all add: string_of_nat.simps[of 0] string_of_nat.simps[of "Suc 0"]
                    string_of_nat.simps[of "numeral k"] digit_def)

section \<open>Properties of the output decoder\<close>

lemma forEach_problems_append:
  "forEach_problems ps ds = ds @ map createDiagnosticFromProblem ps"
  by (induction ps arbitrary: ds) simp_all

lemma forEach_results_append:
  "forEach_results rs ds = ds @ map createDiagnosticFromProblem (problem_entries rs)"
proof (induction rs arbitrary: ds)
  case Nil
  show ?case by (simp add: problem_entries_def)
next
  case (Cons r rs)
  show ?case
  proof (cases "problems r")
    case None
    then show ?thesis using Cons by (simp add: problem_entries_def)
  next
    case (Some ps)
    then show ?thesis using Cons
      by (simp add: problem_entries_def forEach_problems_append)
  qed
qed




lemma trim_blank:
  assumes "\<forall>c \<in> set s. isWhiteSpace c"
  shows "trim s = []"
proof -
  have h: "dropWhile isWhiteSpace s = []" using assms by simp
  show ?thesis unfolding trim_def h by simp
qed

lemma indexOf_first:
  assumes "c \<notin> set pre"
  shows "indexOf (pre @ c # rest) c = int (length pre)"
proof -
  have "takeWhile (\<lambda>x. x \<noteq> c) (pre @ c # rest) = pre"
    using assms by (induction pre) auto
  then show ?thesis by (simp add: indexOf_def)
qed

lemma lastIndexOf_last:
  assumes "c \<notin> set post"
  shows "lastIndexOf (front @ c # post) c = int (length front)"
proof -
  have "takeWhile (\<lambda>x. x \<noteq> c) (rev post @ c # rev front) = rev post"
    using assms by (induction post rule: rev_induct) auto
  then show ?thesis by (simp add: lastIndexOf_def)
qed

lemma substring_middle:
  assumes "a = int (length pre)" "b = a + int (length mid)"
  shows "substring (pre @ mid @ post) a b = mid"
proof -
  let ?n = "int (length (pre @ mid @ post))"
  have a': "max 0 (min a ?n) = a" using assms by simp
  have b': "max 0 (min b ?n) = b" using assms by simp
  have lo: "min a b = a" and hi: "max a b = b" using assms by simp_all
  have "substring (pre @ mid @ post) a b = take (nat (b - a)) (drop (nat a) (pre @ mid @ post))"
    unfolding substring_def Let_def a' b' lo hi ..
  also have "\<dots> = mid" using assms by simp
  finally show ?thesis .
qed

lemma slice_noise:
  assumes "CHR ''['' \<notin> set pre" "CHR '']'' \<notin> set post"
  shows "indexOf (pre @ CHR ''['' # body @ CHR '']'' # post) CHR ''['' = int (length pre)"
    and "lastIndexOf (pre @ CHR ''['' # body @ CHR '']'' # post) CHR '']''
         = int (length pre) + int (length body) + 1"
    and "substring (pre @ CHR ''['' # body @ CHR '']'' # post) (int (length pre))
           (int (length pre) + int (length body) + 1 + 1) = CHR ''['' # body @ '']''"
proof -
  show "indexOf (pre @ CHR ''['' # body @ CHR '']'' # post) CHR ''['' = int (length pre)"
    using assms(1) by (rule indexOf_first)
  show "lastIndexOf (pre @ CHR ''['' # body @ CHR '']'' # post) CHR '']''
         = int (length pre) + int (length body) + 1"
    using lastIndexOf_last[OF assms(2), of "pre @ CHR ''['' # body"] by simp
  show "substring (pre @ CHR ''['' # body @ CHR '']'' # post) (int (length pre))
           (int (length pre) + int (length body) + 1 + 1) = CHR ''['' # body @ '']''"
    using substring_middle[of "int (length pre)" pre
        "int (length pre) + int (length body) + 1 + 1" "CHR ''['' # body @ '']''" post]
    by simp
qed


lemma parse_try_noise:
  assumes "CHR ''['' \<notin> set pre" "CHR '']'' \<notin> set post"
      and "trim output = pre @ CHR ''['' # body @ CHR '']'' # post"
  shows "parse_try JSON_parse output st =
     (let st' = appendLine (''Extracted JSON (first 200 chars): ''
                            @ substring (CHR ''['' # body @ '']'') 0 200) st
      in case JSON_parse (CHR ''['' # body @ '']'') of
           Inl e \<Rightarrow> (st', Some e)
         | Inr NotArray \<Rightarrow> (st', Some ''TypeError: results.forEach is not a function'')
         | Inr (Groups results) \<Rightarrow>
             (st'\<lparr>diagnostics := forEach_results results (diagnostics st')\<rparr>, None))"
proof -
  let ?t = "pre @ CHR ''['' # body @ CHR '']'' # post"
  note s = slice_noise[OF assms(1,2), of body]
  have i: "indexOf ?t CHR ''['' \<noteq> - 1" using s(1) by simp
  have j: "\<not> (lastIndexOf ?t CHR '']'' = - 1 \<or> lastIndexOf ?t CHR '']'' < indexOf ?t CHR ''['')"
    using s(1,2) by simp
  have k: "substring ?t (indexOf ?t CHR ''['') (lastIndexOf ?t CHR '']'' + 1)
           = CHR ''['' # body @ '']''"
    using s by simp
  show ?thesis
    unfolding parse_try_def assms(3) Let_def
    using i j by (simp only: k if_False)
qed

lemma diagnostics_appendLine: "diagnostics (appendLine m st) = diagnostics st"
  by (simp add: appendLine_def)

lemma diagnostics_report: "diagnostics (report m st) = diagnostics st"
  by (simp add: report_def)

lemma parseLinterOutput_noise:
  assumes "CHR ''['' \<notin> set pre" "CHR '']'' \<notin> set post"
      and "trim output = pre @ CHR ''['' # body @ CHR '']'' # post"
  shows "\<exists>run. parseLinterOutput JSON_parse output ch = Inr run \<and>
           diagnostics run =
             (case JSON_parse (CHR ''['' # body @ '']'') of
                Inl e \<Rightarrow> []
              | Inr NotArray \<Rightarrow> []
              | Inr (Groups results) \<Rightarrow>
                  map createDiagnosticFromProblem (problem_entries results))"
proof -
  have ne: "output \<noteq> []" "trim output \<noteq> []"
    using assms(3) by (auto simp: trim_def)
  show ?thesis
    unfolding parseLinterOutput_def Let_def
    using ne parse_try_noise[OF assms, of JSON_parse]
    by (auto simp: Let_def forEach_results_append diagnostics_appendLine diagnostics_report
             split: sum.splits parsed.splits)
qed

lemma set_trim: "set (trim s) \<subseteq> set s"
proof -
  have "set (trim s) = set (dropWhile isWhiteSpace (rev (dropWhile isWhiteSpace s)))"
    by (simp add: trim_def)
  also have "\<dots> \<subseteq> set (rev (dropWhile isWhiteSpace s))"
    using set_dropWhileD by fastforce
  also have "\<dots> \<subseteq> set s"
    using set_dropWhileD by fastforce
  finally show ?thesis .
qed

lemma no_pair:
  assumes "CHR ''['' \<notin> set output \<or> CHR '']'' \<notin> set output \<or>
           lastIndexOf (trim output) CHR '']'' < indexOf (trim output) CHR ''[''"
  shows "indexOf (trim output) CHR ''['' = - 1 \<or> lastIndexOf (trim output) CHR '']'' = - 1 \<or>
         lastIndexOf (trim output) CHR '']'' < indexOf (trim output) CHR ''[''"
  using assms set_trim[of "output"] by (auto simp: indexOf_def lastIndexOf_def)

lemma parse_try_diagnostics:
  "diagnostics (fst (parse_try JSON_parse output st)) =
     (if indexOf (trim output) CHR ''['' = - 1 \<or> lastIndexOf (trim output) CHR '']'' = - 1 \<or>
         lastIndexOf (trim output) CHR '']'' < indexOf (trim output) CHR ''[''
      then diagnostics st
      else case JSON_parse (extracted output) of
             Inr (Groups results) \<Rightarrow> forEach_results results (diagnostics st)
           | _ \<Rightarrow> diagnostics st)"
  by (simp add: parse_try_def extracted_def Let_def diagnostics_appendLine diagnostics_report
           split: sum.splits parsed.splits)

lemma parseLinterOutput_diagnostics:
  "\<exists>run. parseLinterOutput JSON_parse output ch = Inr run \<and>
     diagnostics run =
       (if output = [] \<or> trim output = [] then []
        else diagnostics (fst (parse_try JSON_parse output
               \<lparr>diagnostics = [], console = [], channel = ch\<rparr>)))"
  by (simp add: parseLinterOutput_def Let_def diagnostics_report split: prod.splits option.splits)

lemma parseLinterOutput_console:
  assumes "trim output \<noteq> []"
      and "indexOf (trim output) CHR ''['' = - 1 \<or> lastIndexOf (trim output) CHR '']'' = - 1 \<or>
           lastIndexOf (trim output) CHR '']'' < indexOf (trim output) CHR ''['' \<or>
           (\<exists>e. JSON_parse (extracted output) = Inl e) \<or>
           JSON_parse (extracted output) = Inr NotArray"
      and "parseLinterOutput JSON_parse output ch = Inr run"
  shows "length (console run) = 1"
proof -
  have ne: "output \<noteq> []" using assms(1) by (auto simp: trim_def)
  show ?thesis
    using assms ne
    by (auto simp: parseLinterOutput_def parse_try_def extracted_def Let_def report_def
                   appendLine_def split: if_splits sum.splits parsed.splits)
qed


text \<open>
  Claim C1. For a payload that is a bracketed JSON array which \<open>JSON.parse\<close> reads as
  the result groups \<open>results\<close>, the decoder returns normally with exactly one
  diagnostic per problem entry, in the order of the entries (groups in order, the
  problems of a group in order, groups with a missing or empty problem list
  contributing nothing). Each of the four range coordinates of the i-th diagnostic
  is \<open>max 0 (reported - 1)\<close> of the matching coordinate of the i-th entry alone, and
  message, rule identifier and documentation URI are carried over unchanged. The
  variant that parses the whole buffer yields the same diagnostics.
\<close>

theorem parseLinterOutput_one_record_per_problem:
  assumes "trim payload = CHR ''['' # body @ '']''"
      and "JSON_parse (trim payload) = Inr (Groups results)"
  shows "\<exists>run. parseLinterOutput JSON_parse payload ch = Inr run \<and>
           diagnostics run = map createDiagnosticFromProblem (problem_entries results) \<and>
           length (diagnostics run) = length (problem_entries results) \<and>
           (\<forall>i < length (problem_entries results).
              let p = problem_entries results ! i; d = diagnostics run ! i
              in startLine (range_of d) = max 0 (line_number (start_position (location p)) - 1) \<and>
                 startChar (range_of d) = max 0 (column_number (start_position (location p)) - 1) \<and>
                 endLine (range_of d) = max 0 (line_number (end_position (location p)) - 1) \<and>
                 endChar (range_of d) = max 0 (column_number (end_position (location p)) - 1) \<and>
                 text_of d = message p \<and> code_value d = rule_id p \<and>
                 code_target d = rule_doc_uri p) \<and>
           (JSON_parse payload = Inr (Groups results) \<longrightarrow>
              (\<exists>run'. parseLinterOutput_plain JSON_parse payload = Inr run' \<and>
                 diagnostics run' = diagnostics run))"
proof -
  have t: "trim payload = [] @ CHR ''['' # body @ CHR '']'' # []"
    using assms(1) by simp
  obtain run where run: "parseLinterOutput JSON_parse payload ch = Inr run"
    and d: "diagnostics run = map createDiagnosticFromProblem (problem_entries results)"
    using parseLinterOutput_noise[of "[]" "[]" payload body JSON_parse ch] t assms by auto
  have ne: "payload \<noteq> []" "trim payload \<noteq> []"
    using assms(1) by (auto simp: trim_def)
  have plain: "JSON_parse payload = Inr (Groups results) \<longrightarrow>
       (\<exists>run'. parseLinterOutput_plain JSON_parse payload = Inr run' \<and>
                 diagnostics run' = diagnostics run)"
    using ne d by (simp add: parseLinterOutput_plain_def forEach_results_append)
  have coords: "\<forall>i < length (problem_entries results).
              let p = problem_entries results ! i; d = diagnostics run ! i
              in startLine (range_of d) = max 0 (line_number (start_position (location p)) - 1) \<and>
                 startChar (range_of d) = max 0 (column_number (start_position (location p)) - 1) \<and>
                 endLine (range_of d) = max 0 (line_number (end_position (location p)) - 1) \<and>
                 endChar (range_of d) = max 0 (column_number (end_position (location p)) - 1) \<and>
                 text_of d = message p \<and> code_value d = rule_id p \<and>
                 code_target d = rule_doc_uri p"
    unfolding d by (simp add: createDiagnosticFromProblem_def Let_def)
  show ?thesis using run d plain coords by simp
qed


theorem parseLinterOutput_one_record_per_problem_witness:
  "\<exists>run. parseLinterOutput sample_JSON_parse sample_payload None = Inr run \<and>
     map range_of (diagnostics run)
       = [\<lparr>startLine = 2, startChar = 0, endLine = 2, endChar = 7\<rparr>,
          \<lparr>startLine = 0, startChar = 4, endLine = 0, endChar = 0\<rparr>]"
proof -
  have t: "trim sample_payload = CHR ''['' # sample_body @ '']''"
    by (simp add: sample_payload_def trim_def sample_body_def isWhiteSpace_def)
  have p: "sample_JSON_parse (trim sample_payload) = Inr (Groups sample_results)"
    unfolding t by (simp add: sample_JSON_parse_def sample_payload_def)
  have r: "map range_of (map createDiagnosticFromProblem (problem_entries sample_results))
     = [\<lparr>startLine = 2, startChar = 0, endLine = 2, endChar = 7\<rparr>,
        \<lparr>startLine = 0, startChar = 4, endLine = 0, endChar = 0\<rparr>]"
    by (simp add: problem_entries_def sample_results_def sample_problem_def
                  createDiagnosticFromProblem_def)
  from parseLinterOutput_one_record_per_problem
         [of sample_payload sample_body sample_JSON_parse sample_results None] t p
  obtain run where "parseLinterOutput sample_JSON_parse sample_payload None = Inr run"
    and "diagnostics run = map createDiagnosticFromProblem (problem_entries sample_results)"
    by blast
  then show ?thesis using r by auto
qed





text \<open>
  Claim C3. The decoder returns normally on every input string. On the empty string
  and on a string of white space only it returns no diagnostics and logs nothing;
  on a string without a \<open>[\<close>, without a \<open>]\<close>, or whose last \<open>]\<close> precedes its first
  \<open>[\<close>, and on a string whose extracted substring \<open>JSON.parse\<close> rejects (or reads
  as something that is no array), it returns no diagnostics. The variant that parses
  the whole buffer behaves the same on blank input and on a failed parse.
\<close>

theorem parseLinterOutput_never_raises:
  "(\<exists>run. parseLinterOutput JSON_parse output ch = Inr run) \<and>
   (\<exists>run. parseLinterOutput_plain JSON_parse output = Inr run) \<and>
   ((\<forall>c \<in> set output. isWhiteSpace c) \<longrightarrow>
      parseLinterOutput JSON_parse output ch
        = Inr \<lparr>diagnostics = [], console = [], channel = ch\<rparr> \<and>
      parseLinterOutput_plain JSON_parse output
        = Inr \<lparr>diagnostics = [], console = [], channel = None\<rparr>) \<and>
   (CHR ''['' \<notin> set output \<or> CHR '']'' \<notin> set output \<or>
    lastIndexOf (trim output) CHR '']'' < indexOf (trim output) CHR ''[''
      \<longrightarrow> (\<forall>run. parseLinterOutput JSON_parse output ch = Inr run
                   \<longrightarrow> diagnostics run = [])) \<and>
   ((\<exists>e. JSON_parse (extracted output) = Inl e) \<or> JSON_parse (extracted output) = Inr NotArray
      \<longrightarrow> (\<forall>run. parseLinterOutput JSON_parse output ch = Inr run
                   \<longrightarrow> diagnostics run = [])) \<and>
   ((\<exists>e. JSON_parse output = Inl e) \<or> JSON_parse output = Inr NotArray
      \<longrightarrow> (\<forall>run. parseLinterOutput_plain JSON_parse output = Inr run
                   \<longrightarrow> diagnostics run = [])) \<and>
   (trim output \<noteq> [] \<and>
    (CHR ''['' \<notin> set output \<or> CHR '']'' \<notin> set output \<or>
     lastIndexOf (trim output) CHR '']'' < indexOf (trim output) CHR ''['' \<or>
     (\<exists>e. JSON_parse (extracted output) = Inl e) \<or>
     JSON_parse (extracted output) = Inr NotArray)
      \<longrightarrow> (\<forall>run. parseLinterOutput JSON_parse output ch = Inr run
                   \<longrightarrow> length (console run) = 1))"
proof -
  obtain run where run: "parseLinterOutput JSON_parse output ch = Inr run"
    and d: "diagnostics run =
       (if output = [] \<or> trim output = [] then []
        else diagnostics (fst (parse_try JSON_parse output
               \<lparr>diagnostics = [], console = [], channel = ch\<rparr>)))"
    using parseLinterOutput_diagnostics by blast
  have a: "\<exists>run. parseLinterOutput JSON_parse output ch = Inr run" using run by blast
  have b: "\<exists>run. parseLinterOutput_plain JSON_parse output = Inr run"
    by (simp add: parseLinterOutput_plain_def Let_def split: sum.splits parsed.splits)
  have c: "(\<forall>c \<in> set output. isWhiteSpace c) \<longrightarrow>
      parseLinterOutput JSON_parse output ch
        = Inr \<lparr>diagnostics = [], console = [], channel = ch\<rparr> \<and>
      parseLinterOutput_plain JSON_parse output
        = Inr \<lparr>diagnostics = [], console = [], channel = None\<rparr>"
    using trim_blank[of "output"]
    by (simp add: parseLinterOutput_def parseLinterOutput_plain_def)
  have e: "CHR ''['' \<notin> set output \<or> CHR '']'' \<notin> set output \<or>
    lastIndexOf (trim output) CHR '']'' < indexOf (trim output) CHR ''[''
      \<longrightarrow> diagnostics run = []"
    using no_pair[of "output"] d by (auto simp: parse_try_diagnostics)
  have f: "(\<exists>e. JSON_parse (extracted output) = Inl e) \<or> JSON_parse (extracted output) = Inr NotArray
      \<longrightarrow> diagnostics run = []"
    using d by (auto simp: parse_try_diagnostics)
  have g: "(\<exists>e. JSON_parse output = Inl e) \<or> JSON_parse output = Inr NotArray
      \<longrightarrow> (\<forall>run. parseLinterOutput_plain JSON_parse output = Inr run
                   \<longrightarrow> diagnostics run = [])"
    by (auto simp: parseLinterOutput_plain_def Let_def split: if_splits)
  have h: "trim output \<noteq> [] \<and>
    (CHR ''['' \<notin> set output \<or> CHR '']'' \<notin> set output \<or>
     lastIndexOf (trim output) CHR '']'' < indexOf (trim output) CHR ''['' \<or>
     (\<exists>e. JSON_parse (extracted output) = Inl e) \<or>
     JSON_parse (extracted output) = Inr NotArray)
      \<longrightarrow> length (console run) = 1"
    using no_pair[of "output"] parseLinterOutput_console[OF _ _ run] by blast
  show ?thesis using a b c e f g h run by simp
qed


theorem parseLinterOutput_never_raises_witness:
  "parseLinterOutput sample_JSON_parse [CHR 0x20, CHR 0x0A] None
     = Inr \<lparr>diagnostics = [], console = [], channel = None\<rparr> \<and>
   (\<exists>run. parseLinterOutput sample_JSON_parse ''no findings'' None = Inr run \<and>
          diagnostics run = []) \<and>
   (\<exists>run. parseLinterOutput sample_JSON_parse ''[nope]'' None = Inr run \<and>
          diagnostics run = [] \<and> length (console run) = 1) \<and>
   (\<exists>run. parseLinterOutput_plain sample_JSON_parse ''[nope]'' = Inr run \<and>
          diagnostics run = [])"
proof -
  note B = parseLinterOutput_never_raises[of sample_JSON_parse "[CHR 0x20, CHR 0x0A]" None]
  note N = parseLinterOutput_never_raises[of sample_JSON_parse "''no findings''" None]
  note F = parseLinterOutput_never_raises[of sample_JSON_parse "''[nope]''" None]
  have b: "\<forall>c \<in> set [CHR 0x20, CHR 0x0A]. isWhiteSpace c"
    by (simp add: isWhiteSpace_def)
  have c1: "parseLinterOutput sample_JSON_parse [CHR 0x20, CHR 0x0A] None
     = Inr \<lparr>diagnostics = [], console = [], channel = None\<rparr>"
    using B[THEN conjunct2, THEN conjunct2, THEN conjunct1, THEN mp, OF b] by (rule conjunct1)
  have n: "CHR ''['' \<notin> set ''no findings'' \<or> CHR '']'' \<notin> set ''no findings'' \<or>
           lastIndexOf (trim ''no findings'') CHR '']''
             < indexOf (trim ''no findings'') CHR ''[''"
    by simp
  obtain r2 where r2: "parseLinterOutput sample_JSON_parse ''no findings'' None = Inr r2"
    using N[THEN conjunct1] by (rule exE)
  have d2: "diagnostics r2 = []"
    using N[THEN conjunct2, THEN conjunct2, THEN conjunct2, THEN conjunct1, THEN mp, OF n] r2
    by blast
  have e: "extracted ''[nope]'' = ''[nope]''"
    by (simp add: extracted_def trim_def isWhiteSpace_def indexOf_def lastIndexOf_def
                  substring_def)
  have t: "trim ''[nope]'' \<noteq> []"
    by (simp add: trim_def isWhiteSpace_def)
  have s: "sample_JSON_parse ''[nope]'' = Inl ''SyntaxError: Unexpected token''"
    by (simp add: sample_JSON_parse_def sample_payload_def sample_body_def)
  have f: "(\<exists>e. sample_JSON_parse (extracted ''[nope]'') = Inl e) \<or>
           sample_JSON_parse (extracted ''[nope]'') = Inr NotArray"
    unfolding e s by simp
  have f': "(\<exists>e. sample_JSON_parse ''[nope]'' = Inl e) \<or>
            sample_JSON_parse ''[nope]'' = Inr NotArray"
    unfolding s by simp
  have f'': "trim ''[nope]'' \<noteq> [] \<and>
     (CHR ''['' \<notin> set ''[nope]'' \<or> CHR '']'' \<notin> set ''[nope]'' \<or>
      lastIndexOf (trim ''[nope]'') CHR '']'' < indexOf (trim ''[nope]'') CHR ''['' \<or>
      (\<exists>e. sample_JSON_parse (extracted ''[nope]'') = Inl e) \<or>
      sample_JSON_parse (extracted ''[nope]'') = Inr NotArray)"
    using t f by blast
  obtain r3 where r3: "parseLinterOutput sample_JSON_parse ''[nope]'' None = Inr r3"
    using F[THEN conjunct1] by (rule exE)
  have d3: "diagnostics r3 = []"
    using F[THEN conjunct2, THEN conjunct2, THEN conjunct2, THEN conjunct2, THEN conjunct1,
            THEN mp, OF f] r3
    by blast
  have l3: "length (console r3) = 1"
    using F[THEN conjunct2, THEN conjunct2, THEN conjunct2, THEN conjunct2, THEN conjunct2,
            THEN conjunct2, THEN mp, OF f''] r3
    by blast
  obtain r4 where r4: "parseLinterOutput_plain sample_JSON_parse ''[nope]'' = Inr r4"
    using F[THEN conjunct2, THEN conjunct1] by (rule exE)
  have d4: "diagnostics r4 = []"
    using F[THEN conjunct2, THEN conjunct2, THEN conjunct2, THEN conjunct2, THEN conjunct2,
            THEN conjunct1, THEN mp, OF f'] r4
    by blast
  show ?thesis using c1 r2 d2 r3 d3 l3 r4 d4 by blast
qed


section \<open>Properties of the process runner\<close>

lemma render_code_2: "render_code (Some 2) = ''2''"
  by (simp add: render_code_def string_of_int_def string_of_nat_eval digit_def)

text \<open>
  Claim C4. When the process closes with exit code 0 or 1 the run resolves with the
  diagnostics decoded from the collected stdout; with any other exit code (a missing
  code included) it rejects with an error whose message names the code. Exit code 2
  rejects with \<open>api-linter exited with code 2\<close>.
\<close>

theorem runLinter_exit_codes:
  "(code = Some 0 \<or> code = Some 1 \<longrightarrow>
      (\<exists>run. parseLinterOutput JSON_parse stdout None = Inr run \<and>
             runLinter_on_close JSON_parse ch stdout [] code = (Resolved (diagnostics run), ch) \<and>
             fst (runLinter_on_close JSON_parse ch stdout stderr code)
               = Resolved (diagnostics run))) \<and>
   (code \<noteq> Some 0 \<and> code \<noteq> Some 1 \<longrightarrow>
      fst (runLinter_on_close JSON_parse ch stdout stderr code)
        = Rejected (''Error: api-linter exited with code '' @ render_code code)) \<and>
   fst (runLinter_on_close JSON_parse ch stdout stderr (Some 2))
     = Rejected ''Error: api-linter exited with code 2''"
proof -
  obtain run where run: "parseLinterOutput JSON_parse stdout None = Inr run"
    using parseLinterOutput_diagnostics[of JSON_parse stdout None] by blast
  have ok: "code = Some 0 \<or> code = Some 1 \<longrightarrow>
      runLinter_on_close JSON_parse ch stdout [] code = (Resolved (diagnostics run), ch) \<and>
      fst (runLinter_on_close JSON_parse ch stdout stderr code) = Resolved (diagnostics run)"
    using run by (auto simp: runLinter_on_close_def Let_def)
  have bad: "code \<noteq> Some 0 \<and> code \<noteq> Some 1 \<longrightarrow>
      fst (runLinter_on_close JSON_parse ch stdout stderr code)
        = Rejected (''Error: api-linter exited with code '' @ render_code code)"
    by (simp add: runLinter_on_close_def Let_def)
  have two: "fst (runLinter_on_close JSON_parse ch stdout stderr (Some 2))
     = Rejected ''Error: api-linter exited with code 2''"
    by (simp add: runLinter_on_close_def Let_def render_code_2)
  show ?thesis using run ok bad two by blast
qed

theorem runLinter_exit_codes_witness:
  "(\<exists>run. parseLinterOutput sample_JSON_parse sample_payload None = Inr run \<and>
          length (diagnostics run) = 2 \<and>
          fst (runLinter_on_close sample_JSON_parse [] sample_payload [] (Some 1))
            = Resolved (diagnostics run)) \<and>
   fst (runLinter_on_close sample_JSON_parse [] sample_payload [] (Some 3))
     = Rejected ''Error: api-linter exited with code 3''"
proof -
  note T = runLinter_exit_codes[of "Some 1" sample_JSON_parse sample_payload "[]" "[]"]
  note U = runLinter_exit_codes[of "Some 3" sample_JSON_parse sample_payload "[]" "[]"]
  have c: "Some (1::int) = Some 0 \<or> Some (1::int) = Some 1"
    by simp
  obtain run where r: "parseLinterOutput sample_JSON_parse sample_payload None = Inr run"
    and f: "fst (runLinter_on_close sample_JSON_parse [] sample_payload [] (Some 1))
            = Resolved (diagnostics run)"
    using T[THEN conjunct1, THEN mp, OF c] by blast
  have t: "trim sample_payload = [] @ CHR ''['' # sample_body @ CHR '']'' # []"
    by (simp add: sample_payload_def trim_def sample_body_def isWhiteSpace_def)
  have p: "sample_JSON_parse (CHR ''['' # sample_body @ '']'') = Inr (Groups sample_results)"
    by (simp add: sample_JSON_parse_def sample_payload_def)
  have l: "length (diagnostics run) = 2"
    using parseLinterOutput_noise[of "[]" "[]" sample_payload sample_body sample_JSON_parse None]
          t p r
    by (auto simp: problem_entries_def sample_results_def)
  have d: "Some (3::int) \<noteq> Some 0 \<and> Some (3::int) \<noteq> Some 1"
    by simp
  have "fst (runLinter_on_close sample_JSON_parse [] sample_payload [] (Some 3))
     = Rejected (''Error: api-linter exited with code '' @ render_code (Some 3))"
    using U[THEN conjunct2, THEN conjunct1, THEN mp, OF d] .
  moreover have "render_code (Some 3) = ''3''"
    by (simp add: render_code_def string_of_int_def string_of_nat_eval digit_def)
  ultimately show ?thesis using r f l by auto
qed

section \<open>Properties of the argument builder\<close>

lemma forEach_flag_append:
  "forEach_flag flag vs a = a @ concat (map (\<lambda>v. [flag, v]) vs)"
  by (induction vs arbitrary: a) simp_all

lemma forEach_protoPath_append:
  "forEach_protoPath env filePath pp a =
     a @ concat (map (\<lambda>p. if existsSync env (resolveWorkspaceVariables env p filePath)
                            then [''--proto-path'', resolveWorkspaceVariables env p filePath]
                            else []) pp)"
  by (induction pp arbitrary: a) (simp_all add: Let_def)

text \<open>
  Claim C5, as the code has it. In both variants the argument vector holds
  \<open>--proto-path\<close> followed by the directory of the target file, and the entries of
  \<open>protoPath\<close> contribute at one place of the vector, in their order, while the rest
  of the vector does not depend on \<open>protoPath\<close>. In the variant that resolves
  workspace variables an entry contributes \<open>--proto-path\<close> and its resolved path when
  the resolved path exists on disk, and nothing when it does not; the resolved path
  is the entry after \<open>${workspaceFolder}\<close> and \<open>${workspaceRoot}\<close> have been replaced
  by the workspace root (when a folder is open) and \<open>path.resolve\<close> has been applied.
  No other test is made there: an entry that still holds a placeholder is dropped
  exactly when its resolved path does not exist. In the variant of
  src/utils/linterUtils.ts every entry contributes \<open>--proto-path\<close> and the entry
  itself, unchanged and without any test.
\<close>

theorem buildLinterArgs_proto_paths:
  "workingDir (buildLinterArgs env filePath opts)
     = path_dirname env
         (if path_isAbsolute env filePath then filePath else path_resolve env filePath) \<and>
   (\<exists>a1 a3 tl. \<forall>pp.
     args (buildLinterArgs env filePath (opts\<lparr>protoPath := pp\<rparr>)) =
       a1 @ [''--proto-path'', workingDir (buildLinterArgs env filePath opts)] @ a3 @
       concat (map (\<lambda>p. if existsSync env (resolveWorkspaceVariables env p filePath)
                            then [''--proto-path'', resolveWorkspaceVariables env p filePath]
                            else []) pp) @ tl) \<and>
   workingDir (buildLinterArgs_plain env filePath opts)
     = path_dirname env
         (if path_isAbsolute env filePath then filePath else path_resolve env filePath) \<and>
   (\<exists>a1 tl. \<forall>pp.
     args (buildLinterArgs_plain env filePath (opts\<lparr>protoPath := pp\<rparr>)) =
       a1 @ [''--proto-path'', workingDir (buildLinterArgs_plain env filePath opts)] @
       concat (map (\<lambda>p. [''--proto-path'', p]) pp) @ tl)"
proof -
  let ?wd = "path_dirname env
               (if path_isAbsolute env filePath then filePath else path_resolve env filePath)"
  let ?fn = "path_basename env
               (if path_isAbsolute env filePath then filePath else path_resolve env filePath)"
  let ?a1 = "if configPath opts \<noteq> []
             then if existsSync env (resolveWorkspaceVariables env (configPath opts) filePath)
                  then [''--config'', resolveWorkspaceVariables env (configPath opts) filePath]
                  else []
             else []"
  let ?b1 = "if configPath opts \<noteq> [] \<and> existsSync env (configPath opts)
             then [''--config'', configPath opts] else []"
  let ?ws = "case workspaceRoot_of env filePath of
               None \<Rightarrow> []
             | Some workspaceRoot \<Rightarrow>
                 (if workspaceRoot \<noteq> ?wd \<and> existsSync env workspaceRoot
                  then [''--proto-path'', workspaceRoot] else []) @
                 (if existsSync env (path_join env [workspaceRoot, ''.gapi'', ''googleapis''])
                  then [''--proto-path'', path_join env [workspaceRoot, ''.gapi'', ''googleapis'']]
                  else [])"
  let ?home = "if existsSync env (path_join env [homedir env, ''.gapi'', ''googleapis''])
               then [''--proto-path'', path_join env [homedir env, ''.gapi'', ''googleapis'']]
               else []"
  let ?tl = "concat (map (\<lambda>v. [''--disable-rule'', v]) (disableRules opts)) @
             concat (map (\<lambda>v. [''--enable-rule'', v]) (enableRules opts)) @
             concat (map (\<lambda>v. [''--descriptor-set-in'', v]) (descriptorSetIn opts)) @
             (if ignoreCommentDisables opts then [''--ignore-comment-disables''] else []) @
             (if setExitStatus opts then [''--set-exit-status''] else []) @
             [''--output-format'', ''json'', ?fn]"
  have wd: "workingDir (buildLinterArgs env filePath opts) = ?wd"
    by (simp add: buildLinterArgs_def Let_def)
  have wd': "workingDir (buildLinterArgs_plain env filePath opts) = ?wd"
    by (simp add: buildLinterArgs_plain_def Let_def)
  have "\<forall>pp. args (buildLinterArgs env filePath (opts\<lparr>protoPath := pp\<rparr>)) =
       ?a1 @ [''--proto-path'', ?wd] @ (?ws @ ?home) @
       concat (map (\<lambda>p. if existsSync env (resolveWorkspaceVariables env p filePath)
                            then [''--proto-path'', resolveWorkspaceVariables env p filePath]
                            else []) pp) @ ?tl"
    by (simp add: buildLinterArgs_def Let_def forEach_flag_append forEach_protoPath_append
             split: option.splits)
  then have r: "\<exists>a1 a3 tl. \<forall>pp.
     args (buildLinterArgs env filePath (opts\<lparr>protoPath := pp\<rparr>)) =
       a1 @ [''--proto-path'', workingDir (buildLinterArgs env filePath opts)] @ a3 @
       concat (map (\<lambda>p. if existsSync env (resolveWorkspaceVariables env p filePath)
                            then [''--proto-path'', resolveWorkspaceVariables env p filePath]
                            else []) pp) @ tl"
    unfolding wd by blast
  have "\<forall>pp. args (buildLinterArgs_plain env filePath (opts\<lparr>protoPath := pp\<rparr>)) =
       ?b1 @ [''--proto-path'', ?wd] @ concat (map (\<lambda>p. [''--proto-path'', p]) pp) @ ?tl"
    by (simp add: buildLinterArgs_plain_def Let_def forEach_flag_append)
  then have q: "\<exists>a1 tl. \<forall>pp.
     args (buildLinterArgs_plain env filePath (opts\<lparr>protoPath := pp\<rparr>)) =
       a1 @ [''--proto-path'', workingDir (buildLinterArgs_plain env filePath opts)] @
       concat (map (\<lambda>p. [''--proto-path'', p]) pp) @ tl"
    unfolding wd' by blast
  show ?thesis using wd r wd' q by blast
qed

lemma sample_resolve:
  "resolveWorkspaceVariables sample_env ''${workspaceFolder}/p/vendor'' ''/ws/p/a.proto''
     = ''/ws/p/vendor''"
  "resolveWorkspaceVariables sample_env ''/ws/missing'' ''/ws/p/a.proto'' = ''/ws/missing''"
  by code_simp+

lemma replace_all_dollar:
  "replace_all ''${workspaceFolder}'' ''/w$$s'' ''${workspaceFolder}/x'' = ''/w$s/x''"
  by code_simp

theorem buildLinterArgs_proto_paths_witness:
  "(\<exists>a1 a3 tl.
     args (buildLinterArgs sample_env ''/ws/p/a.proto'' sample_options)
       = a1 @ [''--proto-path'', ''/ws/p''] @ a3 @ [''--proto-path'', ''/ws/p/vendor''] @ tl \<and>
     args (buildLinterArgs sample_env ''/ws/p/a.proto'' (sample_options\<lparr>protoPath := []\<rparr>))
       = a1 @ [''--proto-path'', ''/ws/p''] @ a3 @ tl) \<and>
   (\<exists>a1 tl.
     args (buildLinterArgs_plain sample_env ''/ws/p/a.proto'' sample_options)
       = a1 @ [''--proto-path'', ''/ws/p''] @
         [''--proto-path'', ''${workspaceFolder}/p/vendor'', ''--proto-path'', ''/ws/missing'']
         @ tl \<and>
     args (buildLinterArgs_plain sample_env ''/ws/p/a.proto''
             (sample_options\<lparr>protoPath := []\<rparr>))
       = a1 @ [''--proto-path'', ''/ws/p''] @ tl)"
proof -
  note T = buildLinterArgs_proto_paths[of sample_env "''/ws/p/a.proto''" sample_options]
  have wd: "workingDir (buildLinterArgs sample_env ''/ws/p/a.proto'' sample_options) = ''/ws/p''"
    unfolding T[THEN conjunct1] by code_simp
  have wd': "workingDir (buildLinterArgs_plain sample_env ''/ws/p/a.proto'' sample_options)
             = ''/ws/p''"
    unfolding T[THEN conjunct2, THEN conjunct2, THEN conjunct1] by code_simp
  have ex: "existsSync sample_env ''/ws/p/vendor''" "\<not> existsSync sample_env ''/ws/missing''"
    by (simp_all add: sample_env_def)
  have o: "sample_options\<lparr>protoPath := [''${workspaceFolder}/p/vendor'', ''/ws/missing'']\<rparr>
           = sample_options"
    by (simp add: sample_options_def)
  from T[THEN conjunct2, THEN conjunct1] obtain a1 a3 tl where
    A: "\<forall>pp. args (buildLinterArgs sample_env ''/ws/p/a.proto'' (sample_options\<lparr>protoPath := pp\<rparr>)) =
       a1 @ [''--proto-path'', workingDir (buildLinterArgs sample_env ''/ws/p/a.proto'' sample_options)] @ a3 @
       concat (map (\<lambda>p. if existsSync sample_env (resolveWorkspaceVariables sample_env p ''/ws/p/a.proto'')
                            then [''--proto-path'', resolveWorkspaceVariables sample_env p ''/ws/p/a.proto'']
                            else []) pp) @ tl"
    by blast
  have 1: "args (buildLinterArgs sample_env ''/ws/p/a.proto'' sample_options)
       = a1 @ [''--proto-path'', ''/ws/p''] @ a3 @ [''--proto-path'', ''/ws/p/vendor''] @ tl"
    using A[THEN spec, of "[''${workspaceFolder}/p/vendor'', ''/ws/missing'']"]
    unfolding o wd by (simp add: sample_resolve ex)
  have 2: "args (buildLinterArgs sample_env ''/ws/p/a.proto'' (sample_options\<lparr>protoPath := []\<rparr>))
       = a1 @ [''--proto-path'', ''/ws/p''] @ a3 @ tl"
    using A[THEN spec, of "[]"] unfolding wd by simp
  from T[THEN conjunct2, THEN conjunct2, THEN conjunct2] obtain b1 tl' where
    B: "\<forall>pp. args (buildLinterArgs_plain sample_env ''/ws/p/a.proto''
                      (sample_options\<lparr>protoPath := pp\<rparr>)) =
       b1 @ [''--proto-path'',
             workingDir (buildLinterArgs_plain sample_env ''/ws/p/a.proto'' sample_options)] @
       concat (map (\<lambda>p. [''--proto-path'', p]) pp) @ tl'"
    by blast
  have 3: "args (buildLinterArgs_plain sample_env ''/ws/p/a.proto'' sample_options)
       = b1 @ [''--proto-path'', ''/ws/p''] @
         [''--proto-path'', ''${workspaceFolder}/p/vendor'', ''--proto-path'', ''/ws/missing'']
         @ tl'"
    using B[THEN spec, of "[''${workspaceFolder}/p/vendor'', ''/ws/missing'']"]
    unfolding o wd' by simp
  have 4: "args (buildLinterArgs_plain sample_env ''/ws/p/a.proto''
             (sample_options\<lparr>protoPath := []\<rparr>))
       = b1 @ [''--proto-path'', ''/ws/p''] @ tl'"
    using B[THEN spec, of "[]"] unfolding wd' by simp
  show ?thesis using 1 2 3 4 by blast
qed

theorem buildLinterArgs_unfiltered_counterexample:
  "protoPath sample_options = [''${workspaceFolder}/p/vendor'', ''/ws/missing''] \<and>
   \<not> existsSync sample_env ''/ws/missing'' \<and>
   args (buildLinterArgs_plain sample_env ''/ws/p/a.proto'' sample_options)
     = [''--proto-path'', ''/ws/p'',
        ''--proto-path'', ''${workspaceFolder}/p/vendor'',
        ''--proto-path'', ''/ws/missing'',
        ''--output-format'', ''json'', ''a.proto''] \<and>
   workspaceFolders no_workspace_env = None \<and>
   protoPath placeholder_options = [''/srv/${workspaceFolder}/protos''] \<and>
   args (buildLinterArgs no_workspace_env ''/ws/p/a.proto'' placeholder_options)
     = [''--proto-path'', ''/ws/p'',
        ''--proto-path'', ''/srv/${workspaceFolder}/protos'',
        ''--output-format'', ''json'', ''a.proto'']"
  by code_simp


section \<open>Properties of the dependency provisioner\<close>

lemma network_calls_say: "network_calls (snd (say msg w)) = network_calls w"
  by (simp add: say_def network_calls_def)

lemma network_calls_ensureDirectory:
  "network_calls (snd (ensureDirectory d w)) = network_calls w"
  by (simp add: ensureDirectory_def mkdir_def emit_def network_calls_def split: option.splits)

lemma ensureDirectory_ok:
  "fs w (GAPI_DIR d) \<noteq> None \<or> mkdir_failure d = None \<Longrightarrow> fst (ensureDirectory d w) = Inr ()"
  by (auto simp: ensureDirectory_def mkdir_def split: option.splits)

lemma getCustomBinaryPath_Some:
  "getCustomBinaryPath d = Some p \<longleftrightarrow>
     binaryPath_setting d = Some p \<and> p \<noteq> [] \<and> p \<noteq> ''api-linter''"
  by (auto simp: getCustomBinaryPath_def split: option.splits)

lemma ensureBinary_custom:
  assumes "getCustomBinaryPath d = Some p"
  shows "ensureBinary d w =
     (case ensureDirectory d w of
        (Inl e, w') \<Rightarrow> (Inl e, w')
      | (Inr u, w') \<Rightarrow>
          (Inr p, w'\<lparr>outputLines := outputLines w' @ [''Using custom binary path: '' @ p]\<rparr>))"
  using assms
  by (simp add: ensureBinary_def andThen_def say_def resolve_def split: prod.splits sum.splits)

text \<open>
  Claim C6, as the code has it. With a custom executable path configured (a setting
  that is neither empty nor \<open>api-linter\<close>), \<open>ensureBinary\<close> makes no network call
  in any case, and it returns the configured path unchanged whenever the data
  directory exists or \<open>mkdir\<close> can create it; what it does besides is to create
  that directory when it is missing and to write one line to the output channel.
\<close>

theorem ensureBinary_custom_path:
  assumes "binaryPath_setting d = Some p" and "p \<noteq> []" and "p \<noteq> ''api-linter''"
  shows "network_calls (snd (ensureBinary d w)) = network_calls w \<and>
         (fs w (GAPI_DIR d) \<noteq> None \<or> mkdir_failure d = None \<longrightarrow>
            fst (ensureBinary d w) = Inr p \<and>
            trace (snd (ensureBinary d w))
              = trace w @ (if fs w (GAPI_DIR d) = None then [Mkdir (GAPI_DIR d)] else []))"
proof -
  have c: "getCustomBinaryPath d = Some p"
    using assms by (simp add: getCustomBinaryPath_Some)
  have n: "network_calls (snd (ensureBinary d w)) = network_calls w"
    using network_calls_ensureDirectory[of d w]
    by (auto simp: ensureBinary_custom[OF c] network_calls_def split: prod.splits sum.splits)
  have r: "fs w (GAPI_DIR d) \<noteq> None \<or> mkdir_failure d = None \<longrightarrow>
            fst (ensureBinary d w) = Inr p \<and>
            trace (snd (ensureBinary d w))
              = trace w @ (if fs w (GAPI_DIR d) = None then [Mkdir (GAPI_DIR d)] else [])"
    by (auto simp: ensureBinary_custom[OF c] ensureDirectory_def mkdir_def emit_def
             split: option.splits)
  show ?thesis using n r by blast
qed

theorem ensureBinary_custom_path_witness:
  "fst (ensureBinary sample_downloader (installed_world due_metadata))
     = Inr ''/opt/bin/api-linter'' \<and>
   network_calls (snd (ensureBinary sample_downloader (installed_world due_metadata))) = []"
proof -
  have s: "binaryPath_setting sample_downloader = Some ''/opt/bin/api-linter''"
    by (simp add: sample_downloader_def)
  have e: "fs (installed_world due_metadata) (GAPI_DIR sample_downloader) \<noteq> None
           \<or> mkdir_failure sample_downloader = None"
    by (simp add: installed_world_def installed_fs_def GAPI_DIR_def sample_downloader_def)
  have n: "network_calls (installed_world due_metadata) = []"
    by (simp add: network_calls_def installed_world_def)
  have p1: "''/opt/bin/api-linter'' \<noteq> []" and p2: "''/opt/bin/api-linter'' \<noteq> ''api-linter''"
    by simp_all
  note T = ensureBinary_custom_path[OF s p1 p2, of "installed_world due_metadata"]
  have "fst (ensureBinary sample_downloader (installed_world due_metadata))
          = Inr ''/opt/bin/api-linter''"
    using T[THEN conjunct2, THEN mp, OF e] by (rule conjunct1)
  moreover have "network_calls (snd (ensureBinary sample_downloader (installed_world due_metadata)))
          = []"
    using T[THEN conjunct1] n by simp
  ultimately show ?thesis by blast
qed

theorem ensureBinary_custom_path_counterexample:
  "binaryPath_setting sample_downloader = Some ''/opt/bin/api-linter'' \<and>
   fst (ensureBinary sample_downloader empty_world)
     = Inl ''Error: EACCES: permission denied, mkdir /home/u/.gapi''"
  by code_simp

text \<open>
  Claim C7. With a metadata file that reads as \<open>data\<close>, an update check of the
  executable is due exactly when \<open>now - lastChecked data\<close> is strictly greater than
  the interval: one millisecond over the interval is due, one millisecond under it
  is not. A metadata file that is missing or that \<open>JSON.parse\<close> rejects makes the
  check due. The check of the googleapis corpus is the same with its own interval
  once the corpus directory exists, and is due whenever that directory is missing.
\<close>

theorem shouldCheckForUpdate_due:
  "(fs w (METADATA_PATH d) = Some (File content) \<and> JSON_parse_metadata d content = Inr data \<longrightarrow>
      (shouldCheckForUpdate d w \<longleftrightarrow> now w - lastChecked data > oneDayInMs) \<and>
      (lastChecked data = now w - (oneDayInMs + 1) \<longrightarrow> shouldCheckForUpdate d w) \<and>
      (lastChecked data = now w - (oneDayInMs - 1) \<longrightarrow> \<not> shouldCheckForUpdate d w)) \<and>
   ((\<forall>c. fs w (METADATA_PATH d) \<noteq> Some (File c)) \<longrightarrow> shouldCheckForUpdate d w) \<and>
   (fs w (METADATA_PATH d) = Some (File content) \<and> JSON_parse_metadata d content = Inl e \<longrightarrow>
      shouldCheckForUpdate d w) \<and>
   (fs w (GOOGLEAPIS_DIR d) \<noteq> None \<and>
    fs w (GOOGLEAPIS_METADATA_PATH d) = Some (File content') \<and>
    JSON_parse_googleapis d content' = Inr data' \<longrightarrow>
      (shouldDownloadGoogleapis d w \<longleftrightarrow> now w - lastChecked data' > thirtyDays)) \<and>
   (fs w (GOOGLEAPIS_DIR d) = None \<or>
    (\<forall>c. fs w (GOOGLEAPIS_METADATA_PATH d) \<noteq> Some (File c)) \<or>
    (fs w (GOOGLEAPIS_METADATA_PATH d) = Some (File content') \<and>
     JSON_parse_googleapis d content' = Inl e') \<longrightarrow>
      shouldDownloadGoogleapis d w)"
proof -
  have a: "fs w (METADATA_PATH d) = Some (File content) \<and>
           JSON_parse_metadata d content = Inr data \<longrightarrow>
      (shouldCheckForUpdate d w \<longleftrightarrow> now w - lastChecked data > oneDayInMs)"
    by (simp add: shouldCheckForUpdate_def readFile_def)
  have a': "fs w (METADATA_PATH d) = Some (File content) \<and>
            JSON_parse_metadata d content = Inr data \<longrightarrow>
      (lastChecked data = now w - (oneDayInMs + 1) \<longrightarrow> shouldCheckForUpdate d w) \<and>
      (lastChecked data = now w - (oneDayInMs - 1) \<longrightarrow> \<not> shouldCheckForUpdate d w)"
    using a by auto
  have b: "(\<forall>c. fs w (METADATA_PATH d) \<noteq> Some (File c)) \<longrightarrow> shouldCheckForUpdate d w"
    by (auto simp: shouldCheckForUpdate_def readFile_def split: option.splits node.splits)
  have c: "fs w (METADATA_PATH d) = Some (File content) \<and>
           JSON_parse_metadata d content = Inl e \<longrightarrow> shouldCheckForUpdate d w"
    by (simp add: shouldCheckForUpdate_def readFile_def)
  have g: "fs w (GOOGLEAPIS_DIR d) \<noteq> None \<and>
    fs w (GOOGLEAPIS_METADATA_PATH d) = Some (File content') \<and>
    JSON_parse_googleapis d content' = Inr data' \<longrightarrow>
      (shouldDownloadGoogleapis d w \<longleftrightarrow> now w - lastChecked data' > thirtyDays)"
    by (auto simp: shouldDownloadGoogleapis_def readFile_def)
  have h: "fs w (GOOGLEAPIS_DIR d) = None \<or>
    (\<forall>c. fs w (GOOGLEAPIS_METADATA_PATH d) \<noteq> Some (File c)) \<or>
    (fs w (GOOGLEAPIS_METADATA_PATH d) = Some (File content') \<and>
     JSON_parse_googleapis d content' = Inl e') \<longrightarrow>
      shouldDownloadGoogleapis d w"
    by (auto simp: shouldDownloadGoogleapis_def readFile_def split: option.splits node.splits)
  show ?thesis using a a' b c g h by blast
qed

lemma sample_metadata_path: "METADATA_PATH sample_downloader = ''/home/u/.gapi/metadata.json''"
  by (simp add: METADATA_PATH_def GAPI_DIR_def sample_downloader_def)

lemma sample_stringify_distinct: "sample_stringify fresh_metadata \<noteq> sample_stringify due_metadata"
  by (simp add: sample_stringify_def fresh_metadata_def due_metadata_def string_of_int_def
                string_of_nat_eval digit_def)

theorem shouldCheckForUpdate_due_witness:
  "shouldCheckForUpdate sample_downloader (installed_world due_metadata) \<and>
   \<not> shouldCheckForUpdate sample_downloader (installed_world fresh_metadata) \<and>
   shouldCheckForUpdate sample_downloader empty_world"
proof -
  note D = shouldCheckForUpdate_due[of "installed_world due_metadata" sample_downloader
             "sample_stringify due_metadata" due_metadata]
  note F = shouldCheckForUpdate_due[of "installed_world fresh_metadata" sample_downloader
             "sample_stringify fresh_metadata" fresh_metadata]
  note E = shouldCheckForUpdate_due[of empty_world sample_downloader]
  have d: "fs (installed_world due_metadata) (METADATA_PATH sample_downloader)
             = Some (File (sample_stringify due_metadata)) \<and>
           JSON_parse_metadata sample_downloader (sample_stringify due_metadata) = Inr due_metadata"
    unfolding sample_metadata_path
    by (simp add: installed_world_def installed_fs_def sample_downloader_def
                  sample_parse_metadata_def)
  have d': "lastChecked due_metadata = now (installed_world due_metadata) - (oneDayInMs + 1)"
    by (simp add: due_metadata_def installed_world_def oneDayInMs_def)
  have f: "fs (installed_world fresh_metadata) (METADATA_PATH sample_downloader)
             = Some (File (sample_stringify fresh_metadata)) \<and>
           JSON_parse_metadata sample_downloader (sample_stringify fresh_metadata)
             = Inr fresh_metadata"
    unfolding sample_metadata_path
    by (simp add: installed_world_def installed_fs_def sample_downloader_def
                  sample_parse_metadata_def sample_stringify_distinct)
  have f': "lastChecked fresh_metadata = now (installed_world fresh_metadata) - (oneDayInMs - 1)"
    by (simp add: fresh_metadata_def installed_world_def oneDayInMs_def)
  have e: "\<forall>c. fs empty_world (METADATA_PATH sample_downloader) \<noteq> Some (File c)"
    by (simp add: empty_world_def)
  have 1: "shouldCheckForUpdate sample_downloader (installed_world due_metadata)"
    using D[THEN conjunct1, THEN mp, OF d] d' by blast
  have 2: "\<not> shouldCheckForUpdate sample_downloader (installed_world fresh_metadata)"
    using F[THEN conjunct1, THEN mp, OF f] f' by blast
  have 3: "shouldCheckForUpdate sample_downloader empty_world"
    using E[THEN conjunct2, THEN conjunct1, THEN mp, OF e] .
  show ?thesis using 1 2 3 by blast
qed

text \<open>
  Claim C8, as the code has it. Each write of a metadata sidecar file is a single
  \<open>fs.writeFile\<close> on the final path: when it completes, the file holds the whole
  new metadata (for the executable: the version given, the current time and the
  path of the executable), no other file has changed, and the write is the only
  call made. No temporary file is written and nothing is renamed, so a write that is
  stopped after \<open>k\<close> bytes leaves the first \<open>k\<close> bytes of the new text in the
  file.
\<close>

theorem updateMetadata_in_place:
  "updateMetadata d v w =
     (Inr (),
      w\<lparr>fs := (fs w)(METADATA_PATH d \<mapsto>
                 File (JSON_stringify_metadata d
                         \<lparr>lastChecked = now w, path = BINARY_PATH d, version = v\<rparr>)),
        trace := trace w @
                 [WriteFile (METADATA_PATH d)
                    (JSON_stringify_metadata d
                       \<lparr>lastChecked = now w, path = BINARY_PATH d, version = v\<rparr>)]\<rparr>) \<and>
   updateGoogleapisMetadata d w =
     (Inr (),
      w\<lparr>fs := (fs w)(GOOGLEAPIS_METADATA_PATH d \<mapsto>
                 File (JSON_stringify_googleapis d
                         \<lparr>lastChecked = now w, path = GOOGLEAPIS_DIR d, commit = ''master'',
                          source = ''https://github.com/googleapis/googleapis''\<rparr>)),
        trace := trace w @
                 [WriteFile (GOOGLEAPIS_METADATA_PATH d)
                    (JSON_stringify_googleapis d
                       \<lparr>lastChecked = now w, path = GOOGLEAPIS_DIR d, commit = ''master'',
                        source = ''https://github.com/googleapis/googleapis''\<rparr>)]\<rparr>) \<and>
   fs (updateMetadata_interrupted k d v w) (METADATA_PATH d) =
     Some (File (take k (JSON_stringify_metadata d
                           \<lparr>lastChecked = now w, path = BINARY_PATH d, version = v\<rparr>)))"
  by (simp add: updateMetadata_def updateGoogleapisMetadata_def updateMetadata_interrupted_def
                writeFile_interrupted_def writeFile_def emit_def Let_def)

theorem updateMetadata_in_place_witness:
  "fs (snd (updateMetadata sample_downloader ''v1.2.3'' (installed_world due_metadata)))
      ''/home/u/.gapi/metadata.json''
     = Some (File (sample_stringify
                     \<lparr>lastChecked = 100000000, path = ''/home/u/.gapi/api-linter'',
                      version = ''v1.2.3''\<rparr>))"
proof -
  have m: "METADATA_PATH sample_downloader = ''/home/u/.gapi/metadata.json''"
    by (simp add: METADATA_PATH_def GAPI_DIR_def sample_downloader_def)
  have b: "BINARY_PATH sample_downloader = ''/home/u/.gapi/api-linter''"
    by (simp add: BINARY_PATH_def GAPI_DIR_def sample_downloader_def)
  have s: "JSON_stringify_metadata sample_downloader = sample_stringify"
    by (simp add: sample_downloader_def)
  have n: "now (installed_world due_metadata) = 100000000"
    by (simp add: installed_world_def)
  show ?thesis
    using updateMetadata_in_place
            [of sample_downloader "''v1.2.3''" "installed_world due_metadata" 0, THEN conjunct1]
    unfolding m b s n by simp
qed

lemma sample_paths:
  "GAPI_DIR sample_downloader = ''/home/u/.gapi''"
  "BINARY_PATH sample_downloader = ''/home/u/.gapi/api-linter''"
  "METADATA_PATH sample_downloader = ''/home/u/.gapi/metadata.json''"
  by (simp_all add: GAPI_DIR_def BINARY_PATH_def METADATA_PATH_def sample_downloader_def)

lemma sample_stringify_head: "take (Suc 0) (sample_stringify m) = ''{''"
  by (simp add: sample_stringify_def)

lemma sample_stringify_long: "sample_stringify m \<noteq> ''{''"
  by (simp add: sample_stringify_def)

theorem updateMetadata_atomic_counterexample:
  "fs (installed_world due_metadata) (METADATA_PATH sample_downloader)
     = Some (File (sample_stringify due_metadata)) \<and>
   trace (snd (updateMetadata sample_downloader ''v1.2.3'' (installed_world due_metadata)))
     = [WriteFile ''/home/u/.gapi/metadata.json''
          (sample_stringify \<lparr>lastChecked = 100000000, path = ''/home/u/.gapi/api-linter'',
                             version = ''v1.2.3''\<rparr>)] \<and>
   fs (updateMetadata_interrupted 1 sample_downloader ''v1.2.3'' (installed_world due_metadata))
      (METADATA_PATH sample_downloader)
     = Some (File ''{'') \<and>
   sample_stringify due_metadata \<noteq> ''{'' \<and>
   sample_stringify \<lparr>lastChecked = 100000000, path = ''/home/u/.gapi/api-linter'',
                     version = ''v1.2.3''\<rparr> \<noteq> ''{'' \<and>
   sample_parse_metadata ''{'' = Inl ''SyntaxError: Unexpected end of JSON input''"
proof -
  have s: "JSON_stringify_metadata sample_downloader = sample_stringify"
    by (simp add: sample_downloader_def)
  have 1: "fs (installed_world due_metadata) (METADATA_PATH sample_downloader)
     = Some (File (sample_stringify due_metadata))"
    unfolding sample_paths by (simp add: installed_world_def installed_fs_def)
  have 2: "trace (snd (updateMetadata sample_downloader ''v1.2.3'' (installed_world due_metadata)))
     = [WriteFile ''/home/u/.gapi/metadata.json''
          (sample_stringify \<lparr>lastChecked = 100000000, path = ''/home/u/.gapi/api-linter'',
                             version = ''v1.2.3''\<rparr>)]"
    unfolding updateMetadata_def writeFile_def emit_def Let_def sample_paths s
    by (simp add: installed_world_def)
  have 3: "fs (updateMetadata_interrupted 1 sample_downloader ''v1.2.3''
                 (installed_world due_metadata)) (METADATA_PATH sample_downloader)
     = Some (File ''{'')"
    unfolding updateMetadata_interrupted_def writeFile_interrupted_def emit_def Let_def
              sample_paths s
    by (simp add: sample_stringify_head)
  have 6: "sample_parse_metadata ''{'' = Inl ''SyntaxError: Unexpected end of JSON input''"
    using sample_stringify_long[of due_metadata] sample_stringify_long[of fresh_metadata]
    by (auto simp: sample_parse_metadata_def)
  show ?thesis using 1 2 3 6 sample_stringify_long by blast
qed

text \<open>
  The provisioner reads the \<open>binaryPath\<close> setting in \<open>getCustomBinaryPath\<close> only.
\<close>

lemma setting_paths:
  "GAPI_DIR (d\<lparr>binaryPath_setting := x\<rparr>) = GAPI_DIR d"
  "BINARY_PATH (d\<lparr>binaryPath_setting := x\<rparr>) = BINARY_PATH d"
  "METADATA_PATH (d\<lparr>binaryPath_setting := x\<rparr>) = METADATA_PATH d"
  by (simp_all add: GAPI_DIR_def BINARY_PATH_def METADATA_PATH_def)

lemma setting_primitives:
  "mkdir (d\<lparr>binaryPath_setting := x\<rparr>) = mkdir d"
  "fetch_json (d\<lparr>binaryPath_setting := x\<rparr>) = fetch_json d"
  "download_file (d\<lparr>binaryPath_setting := x\<rparr>) = download_file d"
  "show_message (d\<lparr>binaryPath_setting := x\<rparr>) = show_message d"
  "exec_tar (d\<lparr>binaryPath_setting := x\<rparr>) = exec_tar d"
  by (simp_all add: fun_eq_iff mkdir_def fetch_json_def download_file_def show_message_def
                    exec_tar_def setting_paths Let_def
               cong: sum.case_cong option.case_cong download_outcome.case_cong)

lemma setting_metadata:
  "ensureDirectory (d\<lparr>binaryPath_setting := x\<rparr>) = ensureDirectory d"
  "binaryExists (d\<lparr>binaryPath_setting := x\<rparr>) = binaryExists d"
  "shouldCheckForUpdate (d\<lparr>binaryPath_setting := x\<rparr>) = shouldCheckForUpdate d"
  "getLatestVersion (d\<lparr>binaryPath_setting := x\<rparr>) = getLatestVersion d"
  "getCurrentVersion (d\<lparr>binaryPath_setting := x\<rparr>) = getCurrentVersion d"
  "updateMetadata (d\<lparr>binaryPath_setting := x\<rparr>) = updateMetadata d"
  "findAssetForPlatform (d\<lparr>binaryPath_setting := x\<rparr>) = findAssetForPlatform d"
  "extractBinary (d\<lparr>binaryPath_setting := x\<rparr>) = extractBinary d"
  by (simp_all add: fun_eq_iff ensureDirectory_def binaryExists_def shouldCheckForUpdate_def
                    getLatestVersion_def getCurrentVersion_def updateMetadata_def
                    findAssetForPlatform_def extractBinary_def setting_paths setting_primitives
                    Let_def
               cong: sum.case_cong option.case_cong)

lemma setting_downloadBinary:
  "downloadBinary (d\<lparr>binaryPath_setting := x\<rparr>) = downloadBinary d"
  by (simp add: downloadBinary_def setting_paths setting_primitives setting_metadata Let_def
           cong: sum.case_cong option.case_cong)

lemma setting_checkAndUpdate:
  "checkAndUpdate (d\<lparr>binaryPath_setting := x\<rparr>) = checkAndUpdate d"
  by (simp add: checkAndUpdate_def setting_primitives setting_metadata setting_downloadBinary
           cong: if_cong)

lemma ensureBinary_managed:
  assumes "getCustomBinaryPath d = None"
  shows "ensureBinary d = ensureBinary (d\<lparr>binaryPath_setting := None\<rparr>)"
proof -
  have "getCustomBinaryPath (d\<lparr>binaryPath_setting := None\<rparr>) = None"
    by (simp add: getCustomBinaryPath_def)
  then show ?thesis
    using assms
    by (simp add: ensureBinary_def setting_paths setting_metadata setting_downloadBinary
                  setting_checkAndUpdate
             cong: if_cong option.case_cong)
qed

lemma ensureBinary_managed_result:
  assumes "getCustomBinaryPath d = None" and "fst (ensureBinary d w) = Inr p"
  shows "p = BINARY_PATH d"
  using assms
  by (auto simp: ensureBinary_def andThen_def resolve_def
           split: prod.splits sum.splits if_splits)

text \<open>
  Claim C10. The setting \<open>api-linter\<close> is no custom path: with it \<open>ensureBinary\<close> is
  the same action as with no setting at all, and whenever it returns a path, that
  path is the managed executable. A setting short-circuits provisioning exactly when
  it is a non-empty text other than \<open>api-linter\<close>.
\<close>

theorem ensureBinary_default_setting:
  "getCustomBinaryPath (d\<lparr>binaryPath_setting := Some ''api-linter''\<rparr>) = None \<and>
   ensureBinary (d\<lparr>binaryPath_setting := Some ''api-linter''\<rparr>)
     = ensureBinary (d\<lparr>binaryPath_setting := None\<rparr>) \<and>
   (\<forall>p. fst (ensureBinary (d\<lparr>binaryPath_setting := Some ''api-linter''\<rparr>) w) = Inr p
        \<longrightarrow> p = BINARY_PATH d) \<and>
   (\<forall>p. getCustomBinaryPath d = Some p \<longleftrightarrow>
          binaryPath_setting d = Some p \<and> p \<noteq> [] \<and> p \<noteq> ''api-linter'')"
proof -
  let ?d = "d\<lparr>binaryPath_setting := Some ''api-linter''\<rparr>"
  have n: "getCustomBinaryPath ?d = None"
    by (simp add: getCustomBinaryPath_def)
  have e: "ensureBinary ?d = ensureBinary (d\<lparr>binaryPath_setting := None\<rparr>)"
    using ensureBinary_managed[OF n] by simp
  have r: "\<forall>p. fst (ensureBinary ?d w) = Inr p \<longrightarrow> p = BINARY_PATH d"
    using ensureBinary_managed_result[OF n, of w] by (simp add: setting_paths)
  have s: "\<forall>p. getCustomBinaryPath d = Some p \<longleftrightarrow>
          binaryPath_setting d = Some p \<and> p \<noteq> [] \<and> p \<noteq> ''api-linter''"
    by (simp add: getCustomBinaryPath_Some)
  show ?thesis using n e r s by blast
qed

lemma sample_due: "shouldCheckForUpdate sample_downloader (installed_world due_metadata)"
proof -
  have p: "JSON_parse_metadata sample_downloader (sample_stringify due_metadata)
           = Inr due_metadata"
    by (simp add: sample_downloader_def sample_parse_metadata_def)
  have r: "readFile ''/home/u/.gapi/metadata.json'' (installed_world due_metadata)
           = Inr (sample_stringify due_metadata)"
    by (simp add: readFile_def installed_world_def installed_fs_def)
  have "now (installed_world due_metadata) - lastChecked due_metadata > oneDayInMs"
    by (simp add: due_metadata_def installed_world_def oneDayInMs_def)
  then show ?thesis
    unfolding shouldCheckForUpdate_def sample_paths r by (simp add: p)
qed

lemma sample_checkAndUpdate:
  "checkAndUpdate sample_downloader w =
     (Inr (),
      (emit (FetchJson GITHUB_API) w)
        \<lparr>outputLines := outputLines w @
           [''Failed to check for updates: Error: getaddrinfo ENOTFOUND api.github.com'']\<rparr>)"
proof -
  have f: "fetch_json sample_downloader GITHUB_API w
           = (Inl ''Error: getaddrinfo ENOTFOUND api.github.com'', emit (FetchJson GITHUB_API) w)"
    by (simp add: fetch_json_def sample_downloader_def)
  have g: "getLatestVersion sample_downloader w
           = (Inl ''Error: getaddrinfo ENOTFOUND api.github.com'', emit (FetchJson GITHUB_API) w)"
    by (simp add: getLatestVersion_def andThen_def f)
  show ?thesis
    unfolding checkAndUpdate_def tryCatch_def andThen_def g
    by (simp add: say_def emit_def)
qed

lemma sample_managed_run:
  "fst (ensureBinary (sample_downloader\<lparr>binaryPath_setting := None\<rparr>)
          (installed_world due_metadata)) = Inr ''/home/u/.gapi/api-linter''"
  "trace (snd (ensureBinary (sample_downloader\<lparr>binaryPath_setting := None\<rparr>)
                 (installed_world due_metadata)))
     = [FetchJson ''https://api.github.com/repos/googleapis/api-linter/releases/latest'']"
proof -
  let ?d = "sample_downloader\<lparr>binaryPath_setting := None\<rparr>"
  let ?w = "installed_world due_metadata"
  have c: "getCustomBinaryPath ?d = None"
    by (simp add: getCustomBinaryPath_def)
  have e: "ensureDirectory sample_downloader ?w = (Inr (), ?w)"
    unfolding ensureDirectory_def sample_paths
    by (simp add: installed_world_def installed_fs_def)
  have b: "binaryExists sample_downloader ?w"
    unfolding binaryExists_def sample_paths
    by (simp add: installed_world_def installed_fs_def)
  have run: "ensureBinary ?d ?w =
     (Inr ''/home/u/.gapi/api-linter'',
      snd (checkAndUpdate sample_downloader
             (?w\<lparr>outputLines := outputLines ?w @ [''Checking for updates...'']\<rparr>)))"
    unfolding ensureBinary_def andThen_def c setting_metadata setting_paths
              setting_checkAndUpdate e
    using b sample_due
    by (simp add: say_def resolve_def sample_paths sample_checkAndUpdate)
  show "fst (ensureBinary ?d ?w) = Inr ''/home/u/.gapi/api-linter''"
    unfolding run by simp
  show "trace (snd (ensureBinary ?d ?w))
     = [FetchJson ''https://api.github.com/repos/googleapis/api-linter/releases/latest'']"
    unfolding run sample_checkAndUpdate
    by (simp add: emit_def installed_world_def GITHUB_API_def)
qed

theorem ensureBinary_default_setting_witness:
  "fst (ensureBinary (sample_downloader\<lparr>binaryPath_setting := Some ''api-linter''\<rparr>)
          (installed_world due_metadata)) = Inr ''/home/u/.gapi/api-linter'' \<and>
   trace (snd (ensureBinary (sample_downloader\<lparr>binaryPath_setting := Some ''api-linter''\<rparr>)
                 (installed_world due_metadata)))
     = [FetchJson ''https://api.github.com/repos/googleapis/api-linter/releases/latest'']"
  unfolding ensureBinary_default_setting
              [of sample_downloader "installed_world due_metadata", THEN conjunct2, THEN conjunct1]
  using sample_managed_run by blast

section \<open>Properties of the documentation cache\<close>



end
